theory Spec2Isabelle
  imports Complex_Main "HOL-Library.Sublist"
begin

section \<open>Data model\<close>

text \<open>
  The React state of the \<^verbatim>\<open>App\<close> component and the values it holds.
  A JavaScript \<^verbatim>\<open>number\<close> that holds a telemetry reading is a \<^typ>\<open>real\<close>: the readings
  start finite and every update clamps them, and \<^verbatim>\<open>Math.max\<close> and \<^verbatim>\<open>Math.min\<close> return one
  of their arguments, so rounding does not move a reading out of a range. The frame-rate
  target, which only ever holds 0 or a whole-number rate, is an \<^typ>\<open>int\<close>.
  A value that may be \<^verbatim>\<open>null\<close> or \<^verbatim>\<open>undefined\<close> is an \<^typ>\<open>'a option\<close>.
\<close>

record SystemStats =
  cpuUsage :: real
  ramUsage :: real
  temp :: real
  ping :: real
  activeProcesses :: real

text \<open>
  The values \<^verbatim>\<open>JSON.parse\<close> can return, which are also the shapes of the array and object
  literals the services fall back to. The interfaces of \<^verbatim>\<open>types.ts\<close> constrain nothing at
  run time: what a service returns is stored and used as it is. A number is held as the
  text \<^verbatim>\<open>String\<close> gives for it, since the program renders parsed numbers and never computes
  with them. An object is the list of its entries.
\<close>

datatype js_value =
    JNull
  | JBool bool
  | JNumber string
  | JString string
  | JArray "js_value list"
  | JObject "(string \<times> js_value) list"

text \<open>The one error the program itself can raise.\<close>

datatype js_error = TypeError

text \<open>
  \<^verbatim>\<open>v.key\<close> for the keys the program reads, none of which is a built-in property: reading
  from \<^verbatim>\<open>null\<close> raises, a primitive or an array has no such property, an object has it if
  it has the entry.
\<close>

fun property :: "string \<Rightarrow> js_value \<Rightarrow> js_error + js_value option" where
  "property key JNull = Inl TypeError"
| "property key (JObject entries) = Inr (map_of entries key)"
| "property key v = Inr None"

text \<open>
  \<^verbatim>\<open>`${v}`\<close>. An array is its elements joined by commas, \<^verbatim>\<open>null\<close> elements left empty. An
  object is \<^verbatim>\<open>[object Object]\<close>, unless it has an entry \<^verbatim>\<open>toString\<close>: a parsed value is
  never a function, so the conversion finds nothing to call and raises.
\<close>

fun join :: "string \<Rightarrow> string list \<Rightarrow> string" where
  "join sep [] = []"
| "join sep [x] = x"
| "join sep (x # y # ys) = x @ sep @ join sep (y # ys)"

fun raises_on_String :: "js_value \<Rightarrow> bool" where
  "raises_on_String (JObject entries) = (map_of entries ''toString'' \<noteq> None)"
| "raises_on_String (JArray vs) = list_ex raises_on_String vs"
| "raises_on_String v = False"

fun js_String :: "js_value \<Rightarrow> string" where
  "js_String JNull = ''null''"
| "js_String (JBool b) = (if b then ''true'' else ''false'')"
| "js_String (JNumber n) = n"
| "js_String (JString str) = str"
| "js_String (JArray vs) = join '','' (map (\<lambda>v. if v = JNull then [] else js_String v) vs)"
| "js_String (JObject entries) = ''[object Object]''"

text \<open>
  What React accepts as a child: text and numbers are shown, booleans and \<^verbatim>\<open>null\<close> show
  nothing, an array shows its elements, an object makes the render throw.
\<close>

fun renderable :: "js_value \<Rightarrow> bool" where
  "renderable (JObject entries) = False"
| "renderable (JArray vs) = list_all renderable vs"
| "renderable v = True"

datatype priority_level = Normal | HighPriority | Realtime

text \<open>
  \<^verbatim>\<open>ProcessItem\<close> as \<^verbatim>\<open>fetchProcesses\<close> builds it: three properties read off a verdict, each
  possibly \<^verbatim>\<open>undefined\<close>, and five of its own. Its \<^verbatim>\<open>id\<close> and \<^verbatim>\<open>cpu\<close> fields are
  \<open>item_id\<close> and \<open>item_cpu\<close> here.
\<close>

record ProcessItem =
  name :: "js_value option"
  status :: "js_value option"
  recommendation :: "js_value option"
  item_id :: string
  item_cpu :: int
  memory :: int
  priority :: "priority_level option"
  affinity :: "string option"

datatype engine = smart | hxd

record PerformanceProfile =
  targetFps :: int
  hexMovementBoost :: bool
  boostEngine :: "engine option"

datatype health = STABLE | MODIFIED | OPTIMIZING

datatype tab = dashboard | optimizer | compatibility | processes

text \<open>One entry of the rolling chart buffer.\<close>

record chart_point =
  time :: string
  cpu :: real
  ram :: real

text \<open>The \<^verbatim>\<open>useState\<close> cells of \<^verbatim>\<open>App\<close>, in declaration order.\<close>

record app_state =
  stats :: SystemStats
  chartData :: "chart_point list"
  activeTab :: tab
  gameName :: string
  isLowEndMode :: bool
  tips :: js_value
  isOptimizing :: bool
  analyzedProcesses :: "ProcessItem list"
  isBoosting :: bool
  isHyperLaunching :: bool
  isRestoring :: bool
  boostLog :: "string list"
  systemHealth :: health
  selectedProfile :: "string option"
  isOnline :: bool
  perfProfile :: PerformanceProfile
  isOfficialBoosting :: bool
  isOverlayActive :: bool
  importedGamePath :: "string option"
  isGameRunning :: bool

text \<open>
  The initial values passed to \<^verbatim>\<open>useState\<close>. The two that are read from the browser
  (the stored file name and \<^verbatim>\<open>navigator.onLine\<close>) are parameters.
\<close>

definition initial_state :: "string option \<Rightarrow> bool \<Rightarrow> app_state" where
  "initial_state stored online =
     \<lparr> stats = \<lparr> cpuUsage = 12, ramUsage = 35, temp = 45, ping = 15, activeProcesses = 110 \<rparr>,
       chartData = [],
       activeTab = dashboard,
       gameName = [],
       isLowEndMode = True,
       tips = JArray [],
       isOptimizing = False,
       analyzedProcesses = [],
       isBoosting = False,
       isHyperLaunching = False,
       isRestoring = False,
       boostLog = [],
       systemHealth = STABLE,
       selectedProfile = None,
       isOnline = online,
       perfProfile = \<lparr> targetFps = 0, hexMovementBoost = False, boostEngine = None \<rparr>,
       isOfficialBoosting = False,
       isOverlayActive = False,
       importedGamePath = stored,
       isGameRunning = False \<rparr>"

definition FPS_TARGETS :: "int list" where
  "FPS_TARGETS = [24, 30, 45, 60, 120, 144]"

section \<open>Telemetry tick\<close>

text \<open>
  The interval callback of the second \<^verbatim>\<open>useEffect\<close>. Each field that is recomputed calls
  \<^verbatim>\<open>Math.random()\<close> once; the four draws and the locale-formatted time string are the
  inputs of one tick. \<^verbatim>\<open>isGameRunning\<close> and \<^verbatim>\<open>isOnline\<close> are read from the render the
  effect was registered in, which is the current state because both are dependencies
  of the effect. The chart snapshot reads \<^verbatim>\<open>stats\<close> from the same render, that is the
  readings before this tick's update.
\<close>

record tick_input =
  rnd_cpu :: real
  rnd_ram :: real
  rnd_temp :: real
  rnd_ping :: real
  time_string :: string

text \<open>\<^verbatim>\<open>xs.slice(-k)\<close>: the last \<open>k\<close> elements, or all of them when there are fewer.\<close>

definition slice_last :: "nat \<Rightarrow> 'a list \<Rightarrow> 'a list" where
  "slice_last k xs = drop (length xs - k) xs"

definition next_stats :: "bool \<Rightarrow> bool \<Rightarrow> tick_input \<Rightarrow> SystemStats \<Rightarrow> SystemStats" where
  "next_stats running online i prev =
     prev \<lparr> cpuUsage := (if running then max 40 (min 95 (cpuUsage prev + (rnd_cpu i * 10 - 5)))
                         else max 5 (min 25 (cpuUsage prev + (rnd_cpu i * 4 - 2)))),
            ramUsage := (if running then max 60 (min 90 (ramUsage prev + (rnd_ram i * 5 - 2)))
                         else max 15 (min 35 (ramUsage prev + (rnd_ram i * 4 - 2)))),
            temp := (if running then max 65 (min 85 (temp prev + (rnd_temp i * 2 - 1)))
                     else max 35 (min 50 (temp prev + (rnd_temp i * 2 - 1)))),
            ping := (if online then max 5 (min 100 (ping prev + (rnd_ping i * 6 - 3))) else 0) \<rparr>"

definition snapshot :: "tick_input \<Rightarrow> app_state \<Rightarrow> chart_point" where
  "snapshot i s = \<lparr> time = time_string i, cpu = cpuUsage (stats s), ram = ramUsage (stats s) \<rparr>"

definition tick :: "tick_input \<Rightarrow> app_state \<Rightarrow> app_state" where
  "tick i s =
     s \<lparr> stats := next_stats (isGameRunning s) (isOnline s) i (stats s),
         chartData := slice_last 15 (chartData s @ [snapshot i s]) \<rparr>"

text \<open>A run of ticks, and the snapshots it produces in arrival order.\<close>

fun ticks :: "tick_input list \<Rightarrow> app_state \<Rightarrow> app_state" where
  "ticks [] s = s"
| "ticks (i # is) s = ticks is (tick i s)"

fun arrivals :: "tick_input list \<Rightarrow> app_state \<Rightarrow> chart_point list" where
  "arrivals [] s = []"
| "arrivals (i # is) s = snapshot i s # arrivals is (tick i s)"


section \<open>Strings, timestamps and the log\<close>

text \<open>Decimal rendering of a whole number, as a template literal renders it.\<close>

fun toString_nat :: "nat \<Rightarrow> string" where
  "toString_nat n =
     (if n < 10 then [''0123456789'' ! n]
      else toString_nat (n div 10) @ [''0123456789'' ! (n mod 10)])"

declare toString_nat.simps [simp del]

definition toString_int :: "int \<Rightarrow> string" where
  "toString_int k = (if k < 0 then CHR ''-'' # toString_nat (nat (- k)) else toString_nat (nat k))"

definition padStart :: "nat \<Rightarrow> char \<Rightarrow> string \<Rightarrow> string" where
  "padStart n c str = replicate (n - length str) c @ str"

text \<open>\<^verbatim>\<open>str.includes(sub)\<close>.\<close>

definition str_includes :: "string \<Rightarrow> string \<Rightarrow> bool" where
  "str_includes str sub = sublist sub str"

text \<open>\<^verbatim>\<open>toLowerCase\<close> on the ASCII letters (other characters are kept), and
  \<^verbatim>\<open>toUpperCase\<close> on the two engine names.\<close>

definition toLowerCase :: "string \<Rightarrow> string" where
  "toLowerCase str =
     map (\<lambda>c. if 65 \<le> (of_char c :: nat) \<and> (of_char c :: nat) \<le> 90
              then char_of ((of_char c :: nat) + 32) else c) str"

definition engine_toUpperCase :: "engine \<Rightarrow> string" where
  "engine_toUpperCase e = (case e of smart \<Rightarrow> ''SMART'' | hxd \<Rightarrow> ''HXD'')"

text \<open>
  \<^verbatim>\<open>x || d\<close> on a number and \<^verbatim>\<open>!x\<close> on a string that may be \<^verbatim>\<open>null\<close>: 0, \<^verbatim>\<open>null\<close> and the
  empty string are falsy.
\<close>

definition or_default :: "int \<Rightarrow> int \<Rightarrow> int" where
  "or_default x d = (if x = 0 then d else x)"

definition truthy :: "string option \<Rightarrow> bool" where
  "truthy x = (case x of None \<Rightarrow> False | Some str \<Rightarrow> str \<noteq> [])"

text \<open>The local-time fields of the \<^verbatim>\<open>Date\<close> that \<^verbatim>\<open>getLogTimestamp\<close> reads.\<close>

record date =
  hours :: nat
  minutes :: nat
  seconds :: nat
  milliseconds :: nat

definition getLogTimestamp :: "date \<Rightarrow> string" where
  "getLogTimestamp now =
     ''['' @ padStart 2 CHR ''0'' (toString_nat (hours now)) @ '':'' @
     padStart 2 CHR ''0'' (toString_nat (minutes now)) @ '':'' @
     padStart 2 CHR ''0'' (toString_nat (seconds now)) @ ''.'' @
     padStart 3 CHR ''0'' (toString_nat (milliseconds now)) @ '']''"

text \<open>A log line as \<^verbatim>\<open>addLog\<close> builds it, and \<^verbatim>\<open>addLog\<close> itself: the new line goes first.\<close>

definition log_line :: "date \<Rightarrow> string \<Rightarrow> string" where
  "log_line now msg = getLogTimestamp now @ '' '' @ msg"

definition addLog :: "date \<Rightarrow> string \<Rightarrow> app_state \<Rightarrow> app_state" where
  "addLog now msg s = s \<lparr> boostLog := log_line now msg # boostLog s \<rparr>"

section \<open>Deferred callbacks\<close>

text \<open>
  Each sequencer registers one \<^verbatim>\<open>setTimeout\<close> callback per script line. A callback is the
  closure the source builds: the line, its index, the length of the script and, for the
  direct path, the \<^verbatim>\<open>perfProfile\<close> of the render the handler ran in.
\<close>

datatype callback =
    HxDStep string nat nat PerformanceProfile
  | BoostStep string nat nat
  | RestoreStep string nat nat

fun step_text :: "callback \<Rightarrow> string" where
  "step_text (HxDStep step i n pp) = step"
| "step_text (BoostStep step i n) = step"
| "step_text (RestoreStep step i n) = step"

text \<open>The test \<^verbatim>\<open>i === steps.length - 1\<close> of a callback.\<close>

fun is_final :: "callback \<Rightarrow> bool" where
  "is_final (HxDStep step i n pp) = (i = n - 1)"
| "is_final (BoostStep step i n) = (i = n - 1)"
| "is_final (RestoreStep step i n) = (i = n - 1)"

text \<open>What a callback does when its timer fires at local time \<open>now\<close>.\<close>

fun fire :: "date \<Rightarrow> callback \<Rightarrow> app_state \<Rightarrow> app_state" where
  "fire now (HxDStep step i n pp) s =
     (let s1 = addLog now step s in
      if i = n - 1
      then s1 \<lparr> perfProfile := \<lparr> targetFps = or_default (targetFps pp) 60,
                                  hexMovementBoost = True,
                                  boostEngine = Some hxd \<rparr>,
                isGameRunning := True,
                isOverlayActive := True,
                systemHealth := MODIFIED,
                isOfficialBoosting := False \<rparr>
      else s1)"
| "fire now (BoostStep step i n) s =
     (let s1 = addLog now step s in
      if i = n - 1
      then s1 \<lparr> isOfficialBoosting := False,
                isGameRunning := True,
                isOverlayActive := True,
                systemHealth := MODIFIED \<rparr>
      else s1)"
| "fire now (RestoreStep step i n) s =
     (let s1 = addLog now step s in
      if i = n - 1
      then s1 \<lparr> isRestoring := False,
                isGameRunning := False,
                isOverlayActive := False,
                systemHealth := STABLE,
                perfProfile := \<lparr> targetFps = 0, hexMovementBoost = False, boostEngine = None \<rparr> \<rparr>
      else s1)"

text \<open>
  \<^verbatim>\<open>steps.forEach((step, i) => setTimeout(..., (i + 1) * period))\<close>: the timers a sequencer
  registers, each with its delay in milliseconds.
\<close>

definition schedule :: "nat \<Rightarrow> (string \<Rightarrow> nat \<Rightarrow> nat \<Rightarrow> callback) \<Rightarrow> string list \<Rightarrow> (nat \<times> callback) list" where
  "schedule period mk steps =
     map (\<lambda>(i, step). ((i + 1) * period, mk step i (length steps))) (enumerate 0 steps)"

text \<open>
  The event loop fires pending timers by increasing delay, registration order breaking
  ties. \<open>clk t\<close> is the local time at which the timer with delay \<open>t\<close> fires.
\<close>

fun fire_all :: "(nat \<Rightarrow> date) \<Rightarrow> (nat \<times> callback) list \<Rightarrow> app_state \<Rightarrow> app_state" where
  "fire_all clk [] s = s"
| "fire_all clk ((t, cb) # tms) s = fire_all clk tms (fire (clk t) cb s)"

definition run_timers :: "(nat \<Rightarrow> date) \<Rightarrow> (nat \<times> callback) list \<Rightarrow> app_state \<Rightarrow> app_state" where
  "run_timers clk tms s = fire_all clk (sort_key fst tms) s"

text \<open>
  What one invocation of a handler leaves behind: the alert it showed, if any, the error
  it ended with, if any (for an \<^verbatim>\<open>async\<close> handler, the rejection of its promise), the state
  after the updates it issued, and the timers it registered.
\<close>

record outcome =
  alerted :: "string option"
  raised :: "js_error option"
  after :: app_state
  scheduled :: "(nat \<times> callback) list"

definition script :: "outcome \<Rightarrow> string list" where
  "script out = map (\<lambda>(t, cb). step_text cb) (scheduled out)"

definition delays :: "outcome \<Rightarrow> nat list" where
  "delays out = map fst (scheduled out)"

text \<open>The sequencers build callbacks that carry their line and are final at the last index.\<close>

definition builds_steps :: "(string \<Rightarrow> nat \<Rightarrow> nat \<Rightarrow> callback) \<Rightarrow> bool" where
  "builds_steps mk = (\<forall>step i n. step_text (mk step i n) = step \<and> is_final (mk step i n) = (i = n - 1))"

text \<open>The lines the timers of an invocation write, in the order they fire.\<close>

definition stamped :: "(nat \<Rightarrow> date) \<Rightarrow> (nat \<times> callback) list \<Rightarrow> string list" where
  "stamped clk tms = map (\<lambda>(t, cb). log_line (clk t) (step_text cb)) tms"

text \<open>The state once every timer of the invocation has fired and nothing else happened.\<close>

definition complete :: "(nat \<Rightarrow> date) \<Rightarrow> outcome \<Rightarrow> app_state" where
  "complete clk out = run_timers clk (scheduled out) (after out)"

section \<open>External generation service\<close>

text \<open>
  \<^verbatim>\<open>geminiService.ts\<close>. The endpoint is outside the program, so what it does is a parameter:
  for the \<open>k\<close>-th entry into \<^verbatim>\<open>callGemini\<close> of one service call, whether
  \<^verbatim>\<open>navigator.onLine\<close> holds at that moment and whether \<^verbatim>\<open>generateContent\<close> resolves (with
  a \<^verbatim>\<open>text\<close> that may be undefined) or rejects. A rejection value is \<^verbatim>\<open>null\<close> or
  \<^verbatim>\<open>undefined\<close>, or a value whose \<^verbatim>\<open>message\<close> is absent, a string, or something else
  without an \<^verbatim>\<open>includes\<close> method (a number, a boolean, a plain object). The request
  payload only travels to the endpoint and is not modelled. \<^verbatim>\<open>JSON.parse\<close> is a parameter
  too; \<open>None\<close> is its \<^verbatim>\<open>SyntaxError\<close>.
\<close>

datatype message = NoMessage | StringMessage string | OtherMessage

datatype rejection = Nullish | Described message

datatype reply = Text "string option" | Thrown rejection

record attempt =
  online :: bool
  answer :: reply

type_synonym endpoint = "nat \<Rightarrow> attempt"

type_synonym parser = "string \<Rightarrow> js_value option"

text \<open>What \<^verbatim>\<open>callGemini\<close> does besides returning: requests sent and delays awaited.\<close>

datatype io = Request nat | Sleep nat

text \<open>\<^verbatim>\<open>response.text || ""\<close>.\<close>

definition text_or_empty :: "string option \<Rightarrow> string" where
  "text_or_empty t = (case t of None \<Rightarrow> [] | Some txt \<Rightarrow> txt)"

text \<open>
  The test of the catch block,
  \<^verbatim>\<open>error.message?.includes("500") || error.message?.includes("xhr error")\<close>. Reading
  \<^verbatim>\<open>message\<close> off \<^verbatim>\<open>null\<close> or \<^verbatim>\<open>undefined\<close> raises, and so does calling \<^verbatim>\<open>includes\<close> on a
  message that has no such method; an absent message makes the test false.
\<close>

fun transient :: "rejection \<Rightarrow> js_error + bool" where
  "transient Nullish = Inl TypeError"
| "transient (Described NoMessage) = Inr False"
| "transient (Described (StringMessage msg)) =
     Inr (str_includes msg ''500'' \<or> str_includes msg ''xhr error'')"
| "transient (Described OtherMessage) = Inl TypeError"

text \<open>
  \<^verbatim>\<open>callGemini\<close>. The test of the catch block is evaluated only when \<^verbatim>\<open>retries > 0\<close>; an
  error raised there leaves the function, and the recursive call is returned as it is.
\<close>

fun callGemini :: "endpoint \<Rightarrow> nat \<Rightarrow> nat \<Rightarrow> (js_error + string option) \<times> io list" where
  "callGemini env k retries =
     (if \<not> online (env k) then (Inr None, [])
      else (case answer (env k) of
              Text t \<Rightarrow> (Inr (Some (text_or_empty t)), [Request k])
            | Thrown e \<Rightarrow>
                if retries > 0
                then (case transient e of
                        Inl err \<Rightarrow> (Inl err, [Request k])
                      | Inr signature \<Rightarrow>
                          if signature
                          then (let r = callGemini env (k + 1) (retries - 1)
                                in (fst r, Request k # Sleep 1000 # snd r))
                          else (Inr None, [Request k]))
                else (Inr None, [Request k])))"

declare callGemini.simps [simp del]

text \<open>The default of the \<^verbatim>\<open>retries\<close> parameter; no caller passes another value.\<close>

definition default_retries :: nat where
  "default_retries = 2"

text \<open>
  The tail shared by the three services, after \<^verbatim>\<open>await callGemini(...)\<close>, whose rejection
  rejects the service: \<^verbatim>\<open>if (result) { try { return JSON.parse(result) } catch { warn } }
  return fallback\<close>. What \<^verbatim>\<open>JSON.parse\<close> returns is returned unchecked.
\<close>

definition parse_or_fallback :: "parser \<Rightarrow> js_error + string option \<Rightarrow> js_value \<Rightarrow> js_error + js_value" where
  "parse_or_fallback JSON_parse result fallback =
     (case result of
        Inl err \<Rightarrow> Inl err
      | Inr None \<Rightarrow> Inr fallback
      | Inr (Some txt) \<Rightarrow>
          if txt = [] then Inr fallback
          else (case JSON_parse txt of Some v \<Rightarrow> Inr v | None \<Rightarrow> Inr fallback))"

definition plan_fallback :: "string \<Rightarrow> js_value" where
  "plan_fallback gameName' =
     JArray
       [ JString ''LOCAL: Locking CPU Affinity for core 0-3'',
         JString (''LOCAL: Flushing standby memory lists for '' @ gameName'),
         JString ''LOCAL: Suspending non-critical I/O handles'',
         JString ''LOCAL: Reallocating virtual memory pool to high-speed cache'',
         JString ''LOCAL: Optimizing kernel interrupt request (IRQ) pacing'' ]"

definition generateExecutionPlan :: "endpoint \<Rightarrow> parser \<Rightarrow> string \<Rightarrow> SystemStats \<Rightarrow> js_error + js_value" where
  "generateExecutionPlan env JSON_parse gameName' stats' =
     parse_or_fallback JSON_parse (fst (callGemini env 0 default_retries)) (plan_fallback gameName')"

definition advice_fallback :: "string \<Rightarrow> js_value" where
  "advice_fallback gameName' =
     JArray
       [ JObject
           [ (''category'', JString ''OS''),
             (''title'', JString ''Ultimate Performance Mode''),
             (''description'', JString ''Force the OS kernel into its highest power state. Useful for laptops and systems with aggressive power saving.''),
             (''impact'', JString ''High'') ],
         JObject
           [ (''category'', JString ''Process''),
             (''title'', JString ''Realtime Priority Bridge''),
             (''description'', JString (''Bridges '' @ gameName' @ [CHR 0x27] @ ''s main thread directly to the kernel bypass for lower input latency.'')),
             (''impact'', JString ''Extreme'') ],
         JObject
           [ (''category'', JString ''Hardware''),
             (''title'', JString ''Page File Expansion''),
             (''description'', JString ''Manually expand the virtual memory buffer to prevent out-of-memory crashes on systems with limited physical RAM.''),
             (''impact'', JString ''High'') ],
         JObject
           [ (''category'', JString ''OS''),
             (''title'', JString ''Disable Superfetch''),
             (''description'', JString ''Stop the OS from pre-caching non-gaming applications during your active session to free up I/O bandwidth.''),
             (''impact'', JString ''Medium'') ],
         JObject
           [ (''category'', JString ''Compatibility''),
             (''title'', JString ''Legacy Instruction Emulation''),
             (''description'', JString ''Force old software to use modern CPU instruction sets via an software-defined affinity mask.''),
             (''impact'', JString ''Medium'') ] ]"

definition getOptimizationAdvice :: "endpoint \<Rightarrow> parser \<Rightarrow> string \<Rightarrow> bool \<Rightarrow> js_error + js_value" where
  "getOptimizationAdvice env JSON_parse gameName' isLowEnd =
     parse_or_fallback JSON_parse (fst (callGemini env 0 default_retries)) (advice_fallback gameName')"

definition heuristic_verdict :: "string \<Rightarrow> js_value" where
  "heuristic_verdict nm =
     (let lowerName = toLowerCase nm in
      if str_includes lowerName ''discord'' \<or> str_includes lowerName ''chrome'' \<or>
         str_includes lowerName ''steam''
      then JObject [ (''name'', JString nm), (''status'', JString ''safe''),
                     (''recommendation'', JString ''Safe to terminate. These consume significant RAM/CPU.'') ]
      else if str_includes lowerName ''search'' \<or> str_includes lowerName ''indexer'' \<or>
              str_includes lowerName ''telemetry''
      then JObject [ (''name'', JString nm), (''status'', JString ''safe''),
                     (''recommendation'', JString ''Recommended to disable during gameplay to reduce disk I/O.'') ]
      else JObject [ (''name'', JString nm), (''status'', JString ''caution''),
                     (''recommendation'', JString ''Manual identification required. Likely a system or driver handle.'') ])"

definition process_fallback :: "string list \<Rightarrow> js_value" where
  "process_fallback processNames = JArray (map heuristic_verdict processNames)"

definition analyzeProcesses :: "endpoint \<Rightarrow> parser \<Rightarrow> string list \<Rightarrow> js_error + js_value" where
  "analyzeProcesses env JSON_parse processNames =
     parse_or_fallback JSON_parse (fst (callGemini env 0 default_retries)) (process_fallback processNames)"

text \<open>
  How one attempt can go wrong: the request rejects; it rejects with a transient signature
  while online; the device is offline or the request rejects with a readable message of
  another signature; the request rejects with a value whose message cannot be tested.
\<close>

definition thrown :: "attempt \<Rightarrow> bool" where
  "thrown a = (case answer a of Thrown e \<Rightarrow> True | Text t \<Rightarrow> False)"

definition failed_transiently :: "attempt \<Rightarrow> bool" where
  "failed_transiently a =
     (online a \<and> (case answer a of Thrown e \<Rightarrow> transient e = Inr True | Text t \<Rightarrow> False))"

definition failed_for_good :: "attempt \<Rightarrow> bool" where
  "failed_for_good a =
     (\<not> online a \<or> (case answer a of Thrown e \<Rightarrow> transient e = Inr False | Text t \<Rightarrow> False))"

definition failed_unreadably :: "attempt \<Rightarrow> bool" where
  "failed_unreadably a =
     (online a \<and> (case answer a of Thrown e \<Rightarrow> transient e = Inl TypeError | Text t \<Rightarrow> False))"

text \<open>
  The external call fails: after some transient failures, an attempt finds the device
  offline, or fails with another readable signature, or is the last one allowed and fails.
\<close>

definition call_fails :: "endpoint \<Rightarrow> bool" where
  "call_fails env =
     (\<exists>j \<in> {..default_retries}.
        (\<forall>i \<in> {..<j}. failed_transiently (env i)) \<and>
        (failed_for_good (env j) \<or> (j = default_retries \<and> thrown (env j))))"

text \<open>
  The external call raises: after some transient failures, an attempt that may still be
  retried rejects with a value whose message cannot be tested.
\<close>

definition call_raises :: "endpoint \<Rightarrow> bool" where
  "call_raises env =
     (\<exists>j \<in> {..<default_retries}.
        (\<forall>i \<in> {..<j}. failed_transiently (env i)) \<and> failed_unreadably (env j))"

text \<open>The trace of \<open>j\<close> failed requests, each followed by the delay before the retry.\<close>

definition retries_before :: "nat \<Rightarrow> io list" where
  "retries_before j = concat (map (\<lambda>i. [Request i, Sleep 1000]) [0..<j])"

text \<open>The call returns a text that \<^verbatim>\<open>JSON.parse\<close> rejects.\<close>

definition unparsable :: "endpoint \<Rightarrow> parser \<Rightarrow> bool" where
  "unparsable env JSON_parse =
     (case fst (callGemini env 0 default_retries) of
        Inr (Some txt) \<Rightarrow> JSON_parse txt = None
      | other \<Rightarrow> False)"

text \<open>The number of requests a call sent, read off its trace.\<close>

fun is_request :: "io \<Rightarrow> bool" where
  "is_request (Request k) = True"
| "is_request (Sleep ms) = False"

definition requests_sent :: "(js_error + string option) \<times> io list \<Rightarrow> nat" where
  "requests_sent r = length (filter is_request (snd r))"

section \<open>Handlers\<close>

text \<open>
  Each handler reads the state of the render it was created in and issues state updates;
  run on its own, that is a function from the state to the next state. \<open>now\<close> is the
  local time read by the \<^verbatim>\<open>addLog\<close> calls of its synchronous part. An update issued
  before an error is raised stays issued. The write to \<^verbatim>\<open>localStorage\<close> in
  \<^verbatim>\<open>handleImportGame\<close> is outside the React state and left out.
\<close>

definition quiet :: "app_state \<Rightarrow> outcome" where
  "quiet s = \<lparr> alerted = None, raised = None, after = s, scheduled = [] \<rparr>"

definition failing :: "js_error \<Rightarrow> app_state \<Rightarrow> outcome" where
  "failing err s = \<lparr> alerted = None, raised = Some err, after = s, scheduled = [] \<rparr>"

definition handleOptimization :: "date \<Rightarrow> date \<Rightarrow> endpoint \<Rightarrow> parser \<Rightarrow> app_state \<Rightarrow> outcome" where
  "handleOptimization now now' env JSON_parse s =
     (if gameName s = [] then quiet s
      else
        let s1 = s \<lparr> isOptimizing := True \<rparr>;
            s2 = addLog now (''[CORE] Initiating '' @ (if isOnline s then ''Neural'' else ''Local Heuristic'') @
                             '' analysis for '' @ [CHR 0x22] @ gameName s @ [CHR 0x22] @ ''...'') s1
        in case getOptimizationAdvice env JSON_parse (gameName s) (isLowEndMode s) of
             Inl err \<Rightarrow> failing err s2
           | Inr advice \<Rightarrow>
               quiet (addLog now' (''[KERNEL] Analysis complete. Execution engines initialized in '' @
                                   (if isOnline s then ''Cloud'' else ''Offline'') @ '' mode.'')
                        (s2 \<lparr> tips := advice, isOptimizing := False \<rparr>)))"

text \<open>
  \<^verbatim>\<open>name.replace(/\.[^/.]+$/, "")\<close>: the text after the last dot is removed together with
  the dot when it is not empty and holds no slash.
\<close>

definition strip_extension :: "string \<Rightarrow> string" where
  "strip_extension nm =
     (let ext = rev (takeWhile (\<lambda>c. c \<noteq> CHR ''.'') (rev nm)) in
      if length ext < length nm \<and> ext \<noteq> [] \<and> CHR ''/'' \<notin> set ext
      then take (length nm - length ext - 1) nm
      else nm)"

definition handleImportGame :: "date \<Rightarrow> string option \<Rightarrow> app_state \<Rightarrow> app_state" where
  "handleImportGame now file s =
     (case file of
        None \<Rightarrow> s
      | Some file_name \<Rightarrow>
          addLog now (''[FILESYSTEM] Target Linked: '' @ file_name @ ''. Memory addresses mapped.'')
            (s \<lparr> importedGamePath := Some file_name, gameName := strip_extension file_name \<rparr>))"

definition selectFpsTarget :: "date \<Rightarrow> int \<Rightarrow> app_state \<Rightarrow> app_state" where
  "selectFpsTarget now fps s =
     addLog now (''[TUNER] Frame-pacing target synchronized to '' @ toString_int fps @ '' Hz.'')
       (s \<lparr> perfProfile := (perfProfile s) \<lparr> targetFps := fps \<rparr> \<rparr>)"

definition hxd_steps :: "PerformanceProfile \<Rightarrow> string list" where
  "hxd_steps pp =
     [ ''[HX] Locating instruction pointer offset for frame-throttle...'',
       ''[PATCH] Identifying velocity vectors at address 0x00A4F2E...'',
       ''[INJECTION] Applying 0x90 (NOP) sequence to hard-coded limiter...'',
       ''[SYNC] Synchronizing High-Precision Event Timer (HPET) with core clock...'',
       ''[THREAD] Setting REALTIME I/O priority for process handles...'',
       ''[LINK] Direct memory bridge active. No AI latency overhead.'',
       ''[CORE] Target execution locked at '' @ toString_int (or_default (targetFps pp) 60) @ '' FPS.'' ]"

definition link_alert :: string where
  "link_alert = ''Please link a game executable target first.''"

definition fps_alert :: string where
  "fps_alert = ''Please select a target FPS first.''"

definition hxd_init :: "app_state \<Rightarrow> string" where
  "hxd_init s = ''[HxD-INIT] Accessing memory region for '' @ gameName s @ ''...''"

definition handleHxDBoost :: "date \<Rightarrow> app_state \<Rightarrow> outcome" where
  "handleHxDBoost now s =
     (if \<not> truthy (importedGamePath s)
      then \<lparr> alerted = Some link_alert, raised = None, after = s, scheduled = [] \<rparr>
      else
        let s1 = s \<lparr> isOfficialBoosting := True, systemHealth := OPTIMIZING \<rparr>;
            s2 = addLog now (hxd_init s) s1
        in \<lparr> alerted = None, raised = None, after = s2,
             scheduled = schedule 350 (\<lambda>step i n. HxDStep step i n (perfProfile s))
                           (hxd_steps (perfProfile s)) \<rparr>)"

definition neural :: "string \<Rightarrow> string" where
  "neural str = ''[NEURAL] Strategy: '' @ str"

text \<open>The script of the orchestrated sequence, given the generated steps as rendered.\<close>

definition baseSteps :: "string \<Rightarrow> engine \<Rightarrow> string list \<Rightarrow> string list" where
  "baseSteps gameName' eng rendered =
     [ ''[SIGNAL] Launching '' @ engine_toUpperCase eng @ '' BOOST sequence for '' @ gameName' @ ''...'',
       ''[MEM] Mapping process virtual memory pages for isolation...'',
       ''[CPU] Identifying thread topology and hyper-threading constraints...'' ] @
     map neural rendered @
     [ ''[IRQ] Elevating kernel interrupt request priority for mouse/keyboard...'',
       ''[CACHE] Flushing instruction cache to prioritize '' @ gameName' @ '' data...'',
       ''[AFFINITY] Locking process to core cluster 0-3...'',
       ''[ZENITH] ENGINE IS ACTIVE. SYSTEM OPTIMIZED.'',
       ''[HUD] Performance OSD successfully attached to render pipeline.'' ]"

text \<open>
  \<^verbatim>\<open>startBoostingSequence\<close> runs after the \<^verbatim>\<open>await\<close> of its caller but belongs to the render
  the caller ran in; the \<^verbatim>\<open>gameName\<close> of that render is its first argument. It first marks
  the boost and empties the log, then builds the script: \<^verbatim>\<open>customSteps.map\<close> raises when
  \<^verbatim>\<open>customSteps\<close> is not an array, and so does the template literal on an element that
  cannot be converted to text. Nothing is scheduled then.
\<close>

definition startBoostingSequence :: "string \<Rightarrow> engine \<Rightarrow> js_value \<Rightarrow> app_state \<Rightarrow> outcome" where
  "startBoostingSequence gameName' eng customSteps s =
     (let s1 = s \<lparr> isOfficialBoosting := True, boostLog := [] \<rparr> in
      case customSteps of
        JArray steps \<Rightarrow>
          if list_ex raises_on_String steps then failing TypeError s1
          else \<lparr> alerted = None, raised = None, after = s1,
                 scheduled = schedule 400 BoostStep (baseSteps gameName' eng (map js_String steps)) \<rparr>
      | other \<Rightarrow> failing TypeError s1)"

definition selectBoostEngineAndStart :: "date \<Rightarrow> endpoint \<Rightarrow> parser \<Rightarrow> engine \<Rightarrow> app_state \<Rightarrow> outcome" where
  "selectBoostEngineAndStart now env JSON_parse eng s =
     (if targetFps (perfProfile s) = 0
      then \<lparr> alerted = Some fps_alert, raised = None, after = s, scheduled = [] \<rparr>
      else if \<not> truthy (importedGamePath s)
      then \<lparr> alerted = Some link_alert, raised = None, after = s, scheduled = [] \<rparr>
      else if eng = hxd then handleHxDBoost now s
      else
        let s1 = s \<lparr> perfProfile := (perfProfile s) \<lparr> boostEngine := Some eng, hexMovementBoost := False \<rparr> \<rparr>;
            s2 = s1 \<lparr> systemHealth := OPTIMIZING \<rparr>
        in if eng = smart
           then (let s3 = addLog now (''[AI_CORE] '' @
                            (if isOnline s then ''Requesting Neural Strategy from Cloud...''
                             else ''Generating Local Optimization Plan...'')) s2
                 in case generateExecutionPlan env JSON_parse (gameName s) (stats s) of
                      Inl err \<Rightarrow> failing err s3
                    | Inr customSteps \<Rightarrow> startBoostingSequence (gameName s) eng customSteps s3)
           else startBoostingSequence (gameName s) eng (JArray []) s2)"

text \<open>The state in which the smart engine awaits its plan.\<close>

definition announced :: "date \<Rightarrow> app_state \<Rightarrow> app_state" where
  "announced now s =
     addLog now (''[AI_CORE] '' @ (if isOnline s then ''Requesting Neural Strategy from Cloud...''
                                  else ''Generating Local Optimization Plan...''))
       (s \<lparr> perfProfile := (perfProfile s) \<lparr> boostEngine := Some smart, hexMovementBoost := False \<rparr>,
            systemHealth := OPTIMIZING \<rparr>)"

definition restore_steps :: "string list" where
  "restore_steps =
     [ ''[RESTORE] Decoupling process hooks from HAL (Hardware Abstraction Layer)...'',
       ''[RESTORE] Normalizing CPU affinity masks to default OS scheduling...'',
       ''[RESTORE] Resetting I/O priority levels from REALTIME to NORMAL...'',
       ''[RESTORE] Flushing memory patches and re-syncing instruction cache...'',
       ''[RESTORE] Re-enabling OS telemetry and background power-save handles...'',
       ''[RESTORE] System clock re-synchronized. Environment STABLE.'' ]"

definition handleRestoreSystem :: "date \<Rightarrow> app_state \<Rightarrow> outcome" where
  "handleRestoreSystem now s =
     \<lparr> alerted = None, raised = None,
       after = addLog now ''[RESTORE] Initializing system normalization sequence...''
                 (s \<lparr> isRestoring := True \<rparr>),
       scheduled = schedule 450 RestoreStep restore_steps \<rparr>"

text \<open>
  \<^verbatim>\<open>fetchProcesses\<close>; \<open>rnd i\<close> holds the two \<^verbatim>\<open>Math.random()\<close> draws made for item \<open>i\<close>.
  \<^verbatim>\<open>results.map\<close> raises when the verdicts are not an array, and reading \<^verbatim>\<open>r.name\<close> raises
  on a \<^verbatim>\<open>null\<close> element; the processes are not stored then.
\<close>

definition format_item :: "(nat \<Rightarrow> real \<times> real) \<Rightarrow> nat \<Rightarrow> js_value \<Rightarrow> ProcessItem" where
  "format_item rnd i r =
     \<lparr> name = (case property ''name'' r of Inr v \<Rightarrow> v | Inl err \<Rightarrow> None),
       status = (case property ''status'' r of Inr v \<Rightarrow> v | Inl err \<Rightarrow> None),
       recommendation = (case property ''recommendation'' r of Inr v \<Rightarrow> v | Inl err \<Rightarrow> None),
       item_id = toString_nat i,
       item_cpu = \<lfloor>fst (rnd i) * 10\<rfloor>,
       memory = \<lfloor>snd (rnd i) * 400\<rfloor>,
       priority = Some Normal,
       affinity = Some ''All Cores'' \<rparr>"

definition fetchProcesses ::
    "date \<Rightarrow> endpoint \<Rightarrow> parser \<Rightarrow> (nat \<Rightarrow> real \<times> real) \<Rightarrow> app_state \<Rightarrow> outcome" where
  "fetchProcesses now env JSON_parse rnd s =
     (let s1 = addLog now ''[SCAN] Analyzing background process tree for bottleneck identification...'' s
      in case analyzeProcesses env JSON_parse
                [''Discord.exe'', ''Chrome.exe'', ''SearchIndexer.exe'', ''Steam.exe'', ''svchost.exe''] of
           Inl err \<Rightarrow> failing err s1
         | Inr (JArray results) \<Rightarrow>
             if JNull \<in> set results then failing TypeError s1
             else quiet (s1 \<lparr> analyzedProcesses :=
                                 map (\<lambda>(i, r). format_item rnd i r) (enumerate 0 results) \<rparr>)
         | Inr other \<Rightarrow> failing TypeError s1)"

text \<open>
  The frame-rate buttons. They are in the page when the optimizer tab is shown, \<^verbatim>\<open>tips\<close>
  is a non-empty array and the render of the tab does not throw: each tip must allow its
  \<^verbatim>\<open>category\<close>, \<^verbatim>\<open>impact\<close>, \<^verbatim>\<open>title\<close> and \<^verbatim>\<open>description\<close> to be read and shown. They carry
  \<^verbatim>\<open>disabled={isGameRunning || isRestoring}\<close>. A click on a button that is not in the page
  or is disabled dispatches nothing.
\<close>

definition tip_renders :: "js_value \<Rightarrow> bool" where
  "tip_renders tip =
     (tip \<noteq> JNull \<and>
      list_all (\<lambda>key. case property key tip of Inr (Some v) \<Rightarrow> renderable v | other \<Rightarrow> True)
        [''category'', ''impact'', ''title'', ''description''])"

definition fps_button_rendered :: "app_state \<Rightarrow> bool" where
  "fps_button_rendered s =
     (activeTab s = optimizer \<and>
      (case tips s of JArray ts \<Rightarrow> length ts > 0 \<and> list_all tip_renders ts | other \<Rightarrow> False))"

definition fps_button_disabled :: "app_state \<Rightarrow> bool" where
  "fps_button_disabled s = (isGameRunning s \<or> isRestoring s)"

definition click_fps_button :: "date \<Rightarrow> int \<Rightarrow> app_state \<Rightarrow> app_state" where
  "click_fps_button now fps s =
     (if fps_button_rendered s \<and> \<not> fps_button_disabled s then selectFpsTarget now fps s else s)"

section \<open>Operations\<close>

text \<open>
  Everything that updates the state: the handlers above, the inline setters of the markup,
  the connectivity listener, the telemetry tick and the firing of a timer.
\<close>

datatype operation =
    Tick tick_input
  | StatusChange bool
  | SetActiveTab tab
  | SetGameName string
  | ToggleLowEndMode
  | SetSelectedProfile string
  | HandleOptimization date endpoint parser
  | HandleImportGame "string option"
  | SelectFpsTarget int
  | HandleHxDBoost
  | SelectBoostEngineAndStart engine endpoint parser
  | HandleRestoreSystem
  | FetchProcesses endpoint parser "nat \<Rightarrow> real \<times> real"
  | TimerFires callback

fun perform :: "date \<Rightarrow> operation \<Rightarrow> app_state \<Rightarrow> app_state" where
  "perform now (Tick i) s = tick i s"
| "perform now (StatusChange onLine) s = s \<lparr> isOnline := onLine \<rparr>"
| "perform now (SetActiveTab t) s = s \<lparr> activeTab := t \<rparr>"
| "perform now (SetGameName v) s = s \<lparr> gameName := v \<rparr>"
| "perform now ToggleLowEndMode s = s \<lparr> isLowEndMode := \<not> isLowEndMode s \<rparr>"
| "perform now (SetSelectedProfile p) s = s \<lparr> selectedProfile := Some p \<rparr>"
| "perform now (HandleOptimization now' env JSON_parse) s =
     after (handleOptimization now now' env JSON_parse s)"
| "perform now (HandleImportGame file) s = handleImportGame now file s"
| "perform now (SelectFpsTarget fps) s = selectFpsTarget now fps s"
| "perform now HandleHxDBoost s = after (handleHxDBoost now s)"
| "perform now (SelectBoostEngineAndStart eng env JSON_parse) s =
     after (selectBoostEngineAndStart now env JSON_parse eng s)"
| "perform now HandleRestoreSystem s = after (handleRestoreSystem now s)"
| "perform now (FetchProcesses env JSON_parse rnd) s = after (fetchProcesses now env JSON_parse rnd s)"
| "perform now (TimerFires cb) s = fire now cb s"

text \<open>
  The one operation that reaches \<^verbatim>\<open>startBoostingSequence\<close>: the smart engine, with both
  preconditions met and a plan call that returns.
\<close>

fun starts_smart_sequence :: "operation \<Rightarrow> app_state \<Rightarrow> bool" where
  "starts_smart_sequence (SelectBoostEngineAndStart eng env JSON_parse) s =
     (eng = smart \<and> targetFps (perfProfile s) \<noteq> 0 \<and> truthy (importedGamePath s) \<and>
      (case generateExecutionPlan env JSON_parse (gameName s) (stats s) of
         Inr customSteps \<Rightarrow> True | Inl err \<Rightarrow> False))"
| "starts_smart_sequence other s = False"

section \<open>Sample inputs\<close>

text \<open>A clock that starts at noon, a linked state and endpoints, used to run the model.\<close>

definition noon :: "nat \<Rightarrow> date" where
  "noon t = \<lparr> hours = 12, minutes = 0, seconds = t div 1000, milliseconds = t mod 1000 \<rparr>"

definition linked_state :: app_state where
  "linked_state = (initial_state (Some ''game.exe'') True) \<lparr> gameName := ''game'' \<rparr>"

text \<open>The state a finished direct boost at 60 FPS leaves.\<close>

definition modified_state :: app_state where
  "modified_state =
     linked_state \<lparr> systemHealth := MODIFIED, isGameRunning := True, isOverlayActive := True,
                    perfProfile := \<lparr> targetFps = 60, hexMovementBoost = True, boostEngine = Some hxd \<rparr> \<rparr>"

definition sample_tick :: tick_input where
  "sample_tick = \<lparr> rnd_cpu = 0.9, rnd_ram = 0.5, rnd_temp = 0.25, rnd_ping = 0.1, time_string = ''12:00:00'' \<rparr>"

definition full_chart_state :: app_state where
  "full_chart_state = ticks (replicate 15 sample_tick) linked_state"

text \<open>A state with a frame rate chosen and no target linked.\<close>

definition unlinked_state :: app_state where
  "unlinked_state = (initial_state None True) \<lparr> perfProfile := \<lparr> targetFps = 60, hexMovementBoost = False, boostEngine = None \<rparr> \<rparr>"

text \<open>A state with a target linked and 60 FPS chosen, and a one-step generated plan.\<close>

definition ready_state :: app_state where
  "ready_state =
     linked_state \<lparr> perfProfile := \<lparr> targetFps = 60, hexMovementBoost = False, boostEngine = None \<rparr>,
                    boostLog := [''[12:00:00.000] [TUNER] Frame-pacing target synchronized to 60 Hz.''] \<rparr>"

definition sample_plan :: "string list" where
  "sample_plan = [''ISOLATING THREAD 4'']"

text \<open>
  The optimizer tab after an analysis that fell back to the literal tips: once with the
  game marked running, once idle.
\<close>

definition running_tuner_state :: app_state where
  "running_tuner_state = modified_state \<lparr> activeTab := optimizer, tips := advice_fallback ''game'' \<rparr>"

definition idle_tuner_state :: app_state where
  "idle_tuner_state = linked_state \<lparr> activeTab := optimizer, tips := advice_fallback ''game'' \<rparr>"

definition offline_endpoint :: endpoint where
  "offline_endpoint k = \<lparr> online = False, answer = Text None \<rparr>"

text \<open>An endpoint that fails twice with a server error and then answers.\<close>

definition flaky_endpoint :: endpoint where
  "flaky_endpoint k =
     (if k < 2 then \<lparr> online = True, answer = Thrown (Described (StringMessage ''got status: 500'')) \<rparr>
      else \<lparr> online = True, answer = Text (Some ''[]'') \<rparr>)"

definition failing_endpoint :: endpoint where
  "failing_endpoint k = \<lparr> online = True, answer = Thrown (Described (StringMessage ''xhr error'')) \<rparr>"

definition refusing_endpoint :: endpoint where
  "refusing_endpoint k = \<lparr> online = True, answer = Thrown (Described (StringMessage ''API key not valid'')) \<rparr>"

definition garbled_endpoint :: endpoint where
  "garbled_endpoint k = \<lparr> online = True, answer = Text (Some ''not json'') \<rparr>"

text \<open>An endpoint whose request rejects with \<^verbatim>\<open>undefined\<close>, and two that answer.\<close>

definition bare_rejecting_endpoint :: endpoint where
  "bare_rejecting_endpoint k = \<lparr> online = True, answer = Thrown Nullish \<rparr>"

definition null_endpoint :: endpoint where
  "null_endpoint k = \<lparr> online = True, answer = Text (Some ''null'') \<rparr>"

definition plan_text :: string where
  "plan_text = ''['' @ [CHR 0x22] @ ''ISOLATING THREAD 4'' @ [CHR 0x22] @ '']''"

definition planning_endpoint :: endpoint where
  "planning_endpoint k = \<lparr> online = True, answer = Text (Some plan_text) \<rparr>"

text \<open>
  \<^verbatim>\<open>JSON.parse\<close> on the texts the sample endpoints answer with: three it accepts, and
  \<^verbatim>\<open>not json\<close>, which it rejects like every other text here.
\<close>

definition sample_parse :: parser where
  "sample_parse txt =
     (if txt = ''[]'' then Some (JArray [])
      else if txt = ''null'' then Some JNull
      else if txt = plan_text then Some (JArray (map JString sample_plan))
      else None)"

section \<open>Properties of the telemetry tick\<close>

lemma slice_last_length: "length (slice_last k xs) = min k (length xs)"
  by (simp add: slice_last_def)

lemma slice_last_append_slice:
  "slice_last k (slice_last k xs @ ys) = slice_last k (xs @ ys)"
proof (cases "length xs \<le> k")
  case True
  then show ?thesis by (simp add: slice_last_def)
next
  case False
  then have "length xs - k + k = length xs" by simp
  then show ?thesis using False by (simp add: slice_last_def add.commute)
qed

lemma chartData_ticks:
  "chartData (ticks is s) = (if is = [] then chartData s
                            else slice_last 15 (chartData s @ arrivals is s))"
proof (induction "is" arbitrary: s)
  case Nil
  show ?case by simp
next
  case (Cons i rest)
  show ?case
  proof (cases "rest = []")
    case True
    then show ?thesis by (simp add: tick_def)
  next
    case False
    have "chartData (ticks (i # rest) s) = slice_last 15 (chartData (tick i s) @ arrivals rest (tick i s))"
      using Cons.IH [of "tick i s"] False by simp
    also have "\<dots> = slice_last 15 ((chartData s @ [snapshot i s]) @ arrivals rest (tick i s))"
      by (simp add: tick_def slice_last_append_slice)
    finally show ?thesis by simp
  qed
qed

text \<open>
  C3. Whatever the previous readings and the random draws, one tick leaves every
  recomputed field inside the clamp range of the current mode: CPU in 40..95 when the game
  is running and 5..25 otherwise, RAM in 60..90 or 15..35, temperature in 65..85 or 35..50,
  ping in 5..100 when online and exactly 0 when offline.
\<close>

theorem tick_fields_in_range:
  "cpuUsage (stats (tick i s)) \<in> (if isGameRunning s then {40..95} else {5..25}) \<and>
   ramUsage (stats (tick i s)) \<in> (if isGameRunning s then {60..90} else {15..35}) \<and>
   temp (stats (tick i s)) \<in> (if isGameRunning s then {65..85} else {35..50}) \<and>
   (if isOnline s then ping (stats (tick i s)) \<in> {5..100} else ping (stats (tick i s)) = 0)"
  by (simp add: tick_def next_stats_def)

theorem tick_fields_in_range_witness:
  "cpuUsage (stats (tick sample_tick linked_state)) \<in> {5..25} \<and>
   ramUsage (stats (tick sample_tick linked_state)) \<in> {15..35} \<and>
   temp (stats (tick sample_tick linked_state)) \<in> {35..50} \<and>
   ping (stats (tick sample_tick linked_state)) \<in> {5..100} \<and>
   cpuUsage (stats (tick sample_tick modified_state)) \<in> {40..95} \<and>
   ping (stats (tick sample_tick (modified_state \<lparr> isOnline := False \<rparr>))) = 0"
  using tick_fields_in_range [of sample_tick linked_state]
        tick_fields_in_range [of sample_tick modified_state]
        tick_fields_in_range [of sample_tick "modified_state \<lparr> isOnline := False \<rparr>"]
  by (simp add: linked_state_def modified_state_def initial_state_def)

lemma chartData_tick: "chartData (tick i s) = slice_last 15 (chartData s @ [snapshot i s])"
  by (simp add: tick_def)

lemma length_chartData_tick: "length (chartData (tick i s)) \<le> 15"
  by (simp add: chartData_tick slice_last_length)

lemma length_chartData_ticks:
  "length (chartData s) \<le> 15 \<Longrightarrow> length (chartData (ticks is s)) \<le> 15"
  by (induction "is" arbitrary: s) (simp_all add: length_chartData_tick)

lemma tick_not_full:
  "length (chartData s) < 15 \<Longrightarrow> chartData (tick i s) = chartData s @ [snapshot i s]"
  by (simp add: chartData_tick slice_last_def)

lemma tick_full:
  "length (chartData s) = 15 \<Longrightarrow> chartData (tick i s) = tl (chartData s) @ [snapshot i s]"
  by (simp add: chartData_tick slice_last_def drop_Suc)

text \<open>
  C4. After any tick the chart buffer holds at most 15 entries, and a run of ticks keeps it
  so. Started from the initial state, the buffer is the last 15 of all snapshots produced,
  in arrival order. One tick puts the new snapshot at the end: a buffer with room keeps
  every entry, a full one loses exactly its oldest.
\<close>

theorem chart_buffer_window:
  "length (chartData (tick i s)) \<le> 15 \<and>
   (length (chartData s) \<le> 15 \<longrightarrow> length (chartData (ticks is s)) \<le> 15) \<and>
   chartData (ticks is (initial_state stored onLine)) =
     slice_last 15 (arrivals is (initial_state stored onLine)) \<and>
   (length (chartData s) < 15 \<longrightarrow> chartData (tick i s) = chartData s @ [snapshot i s]) \<and>
   (length (chartData s) = 15 \<longrightarrow> chartData (tick i s) = tl (chartData s) @ [snapshot i s])"
proof -
  have "chartData (initial_state stored onLine) = []"
    by (simp add: initial_state_def)
  then have "chartData (ticks is (initial_state stored onLine)) =
             slice_last 15 (arrivals is (initial_state stored onLine))"
    by (cases "is = []") (simp_all add: chartData_ticks slice_last_def)
  then show ?thesis
    using length_chartData_tick length_chartData_ticks tick_not_full tick_full by blast
qed

lemma length_arrivals: "length (arrivals is s) = length is"
  by (induction "is" arbitrary: s) simp_all

lemma chartData_linked: "chartData linked_state = []"
  by (simp add: linked_state_def initial_state_def)

lemma length_full_chart: "length (chartData full_chart_state) = 15"
  unfolding full_chart_state_def
  by (simp add: chartData_ticks slice_last_length length_arrivals)

theorem chart_buffer_window_witness:
  "length (chartData linked_state) < 15 \<and>
   chartData (tick sample_tick linked_state) = [snapshot sample_tick linked_state] \<and>
   length (chartData (ticks [sample_tick, sample_tick] linked_state)) \<le> 15 \<and>
   length (chartData full_chart_state) = 15 \<and>
   chartData (tick sample_tick full_chart_state) =
     tl (chartData full_chart_state) @ [snapshot sample_tick full_chart_state]"
  using chart_buffer_window [of sample_tick linked_state "[sample_tick, sample_tick]"]
        chart_buffer_window [of sample_tick full_chart_state]
        length_full_chart
  by (simp add: chartData_linked)

section \<open>Properties of the timers\<close>

lemma delays_schedule:
  "map fst (schedule p mk steps) = map (\<lambda>i. (i + 1) * p) [0..<length steps]"
proof -
  have "map fst (schedule p mk steps) = map ((\<lambda>i. (i + 1) * p) \<circ> fst) (enumerate 0 steps)"
    by (simp add: schedule_def case_prod_unfold comp_def)
  also have "\<dots> = map (\<lambda>i. (i + 1) * p) (map fst (enumerate 0 steps))"
    by (simp only: map_map)
  finally show ?thesis by simp
qed

lemma sorted_schedule: "sorted (map fst (schedule p mk steps))"
  unfolding delays_schedule
  by (simp add: sorted_map sorted_wrt_iff_nth_less)

lemma run_timers_schedule:
  "run_timers clk (schedule p mk steps) s = fire_all clk (schedule p mk steps) s"
  by (simp add: run_timers_def sort_key_id_if_sorted [OF sorted_schedule])

lemma fire_all_append:
  "fire_all clk (xs @ ys) s = fire_all clk ys (fire_all clk xs s)"
  by (induction xs arbitrary: s) auto

lemma boostLog_fire: "boostLog (fire now cb s) = log_line now (step_text cb) # boostLog s"
  by (cases cb) (simp_all add: Let_def addLog_def)

lemma boostLog_fire_all: "boostLog (fire_all clk tms s) = rev (stamped clk tms) @ boostLog s"
  by (induction tms arbitrary: s) (auto simp: stamped_def boostLog_fire)

lemma fire_not_final: "\<not> is_final cb \<Longrightarrow> fire now cb s = addLog now (step_text cb) s"
  by (cases cb) (simp_all add: Let_def)

lemma fire_all_not_final:
  "\<forall>(t, cb) \<in> set tms. \<not> is_final cb \<Longrightarrow>
   fire_all clk tms s = s \<lparr> boostLog := rev (stamped clk tms) @ boostLog s \<rparr>"
proof (induction tms arbitrary: s)
  case Nil
  show ?case by (simp add: stamped_def)
next
  case (Cons a tms)
  obtain t cb where a: "a = (t, cb)" by (cases a)
  from Cons.prems a have nf: "\<not> is_final cb" and rest: "\<forall>(t, cb) \<in> set tms. \<not> is_final cb"
    by auto
  show ?case
    by (simp add: a fire_not_final [OF nf] Cons.IH [OF rest] addLog_def stamped_def)
qed

lemma schedule_snoc:
  "schedule p mk (xs @ [x]) =
   map (\<lambda>(i, step). ((i + 1) * p, mk step i (Suc (length xs)))) (enumerate 0 xs) @
   [((length xs + 1) * p, mk x (length xs) (Suc (length xs)))]"
  by (simp add: schedule_def enumerate_append_eq)

lemma run_schedule_snoc:
  assumes "builds_steps mk"
  shows "run_timers clk (schedule p mk (xs @ [x])) s =
         fire (clk ((length xs + 1) * p)) (mk x (length xs) (Suc (length xs)))
           (s \<lparr> boostLog := rev (stamped clk (butlast (schedule p mk (xs @ [x])))) @ boostLog s \<rparr>)"
proof -
  let ?front = "map (\<lambda>(i, step). ((i + 1) * p, mk step i (Suc (length xs)))) (enumerate 0 xs)"
  have nf: "\<forall>(t, cb) \<in> set ?front. \<not> is_final cb"
    using assms by (auto simp: builds_steps_def in_set_enumerate_eq)
  have bl: "butlast (schedule p mk (xs @ [x])) = ?front"
    by (simp add: schedule_snoc)
  have "run_timers clk (schedule p mk (xs @ [x])) s =
        fire_all clk [((length xs + 1) * p, mk x (length xs) (Suc (length xs)))] (fire_all clk ?front s)"
    unfolding run_timers_schedule by (simp only: schedule_snoc fire_all_append)
  also have "fire_all clk ?front s = s \<lparr> boostLog := rev (stamped clk ?front) @ boostLog s \<rparr>"
    by (rule fire_all_not_final [OF nf])
  finally show ?thesis
    by (simp only: bl fire_all.simps)
qed


section \<open>The sequencers\<close>

lemma run_schedule_final:
  assumes "builds_steps mk" and "steps \<noteq> []"
  shows "run_timers clk (schedule p mk steps) s =
         fire (clk (length steps * p)) (mk (last steps) (length steps - 1) (length steps))
           (s \<lparr> boostLog := rev (stamped clk (butlast (schedule p mk steps))) @ boostLog s \<rparr>)"
proof -
  from assms(2) obtain xs x where steps: "steps = xs @ [x]"
    by (metis append_butlast_last_id)
  show ?thesis
    unfolding steps using run_schedule_snoc [OF assms(1), of clk p xs x s] by simp
qed

lemma script_schedule:
  assumes "builds_steps mk"
  shows "map (\<lambda>(t, cb). step_text cb) (schedule p mk steps) = steps"
proof -
  have "map (\<lambda>(t, cb). step_text cb) (schedule p mk steps) = map snd (enumerate 0 steps)"
    using assms by (simp add: schedule_def builds_steps_def case_prod_unfold comp_def)
  then show ?thesis by simp
qed

lemma builds_RestoreStep: "builds_steps RestoreStep"
  by (simp add: builds_steps_def)

lemma builds_BoostStep: "builds_steps BoostStep"
  by (simp add: builds_steps_def)

lemma builds_HxDStep: "builds_steps (\<lambda>step i n. HxDStep step i n pp)"
  by (simp add: builds_steps_def)

lemma boostLog_run_schedule:
  "boostLog (run_timers clk (schedule p mk steps) s) = rev (stamped clk (schedule p mk steps)) @ boostLog s"
  by (simp add: run_timers_schedule boostLog_fire_all)

lemma length_restore_steps: "length restore_steps = 6"
  by (simp add: restore_steps_def)

lemma restore_final_state:
  "complete clk (handleRestoreSystem now s) =
   fire (clk 2700) (RestoreStep (last restore_steps) 5 6)
     ((after (handleRestoreSystem now s))
        \<lparr> boostLog := rev (stamped clk (butlast (scheduled (handleRestoreSystem now s)))) @
                       boostLog (after (handleRestoreSystem now s)) \<rparr>)"
proof -
  have ne: "restore_steps \<noteq> []" by (simp add: restore_steps_def)
  show ?thesis
    using run_schedule_final [OF builds_RestoreStep ne, of clk 450 "after (handleRestoreSystem now s)"]
    by (simp add: complete_def handleRestoreSystem_def length_restore_steps)
qed

text \<open>
  C2. A restore sequence run to completion registers its 6 scripted lines at 450 ms per
  step and, once the last has fired, leaves health \<open>STABLE\<close>, the performance profile
  reset to target 0, no movement boost and no engine, and both \<open>isGameRunning\<close> and
  \<open>isOverlayActive\<close> false. This holds from every state, so also from \<open>MODIFIED\<close>.
\<close>

theorem restore_complete:
  "delays (handleRestoreSystem now s) = [450, 900, 1350, 1800, 2250, 2700] \<and>
   script (handleRestoreSystem now s) = restore_steps \<and>
   length restore_steps = 6 \<and>
   systemHealth (complete clk (handleRestoreSystem now s)) = STABLE \<and>
   perfProfile (complete clk (handleRestoreSystem now s)) =
     \<lparr> targetFps = 0, hexMovementBoost = False, boostEngine = None \<rparr> \<and>
   \<not> isGameRunning (complete clk (handleRestoreSystem now s)) \<and>
   \<not> isOverlayActive (complete clk (handleRestoreSystem now s))"
proof -
  have d: "delays (handleRestoreSystem now s) = [450, 900, 1350, 1800, 2250, 2700]"
    by (simp add: delays_def handleRestoreSystem_def delays_schedule length_restore_steps upt_rec)
  have sc: "script (handleRestoreSystem now s) = restore_steps"
    by (simp add: script_def handleRestoreSystem_def script_schedule [OF builds_RestoreStep])
  show ?thesis
    by (simp add: d sc length_restore_steps restore_final_state Let_def)
qed


lemma length_hxd_steps: "length (hxd_steps pp) = 7"
  by (simp add: hxd_steps_def)

lemma hxd_final_state:
  assumes "truthy (importedGamePath s)"
  shows "complete clk (handleHxDBoost now s) =
         fire (clk 2450) (HxDStep (last (hxd_steps (perfProfile s))) 6 7 (perfProfile s))
           ((after (handleHxDBoost now s))
              \<lparr> boostLog := rev (stamped clk (butlast (scheduled (handleHxDBoost now s)))) @
                             boostLog (after (handleHxDBoost now s)) \<rparr>)"
proof -
  have ne: "hxd_steps (perfProfile s) \<noteq> []" by (simp add: hxd_steps_def)
  show ?thesis
    using assms
      run_schedule_final [OF builds_HxDStep ne, of clk 350 "perfProfile s" "after (handleHxDBoost now s)"]
    by (simp add: complete_def handleHxDBoost_def length_hxd_steps Let_def)
qed

lemma hxd_log:
  assumes "truthy (importedGamePath s)"
  shows "boostLog (complete clk (handleHxDBoost now s)) =
         rev (log_line now (hxd_init s) # stamped clk (scheduled (handleHxDBoost now s))) @ boostLog s"
  using assms
  by (simp add: complete_def handleHxDBoost_def boostLog_run_schedule Let_def addLog_def hxd_init_def)

lemma hxd_stamped_length:
  assumes "truthy (importedGamePath s)"
  shows "length (stamped clk (scheduled (handleHxDBoost now s))) = 7"
  using assms
  by (simp add: stamped_def handleHxDBoost_def Let_def schedule_def length_hxd_steps)

text \<open>
  C1, as the code has it. A direct boost invoked with a linked target raises no alert and
  registers its 7 scripted lines at 350 ms per step; once the last has fired, health is
  \<open>MODIFIED\<close>, \<open>isGameRunning\<close> holds, the profile has the movement boost, the engine
  \<open>hxd\<close> and the frame rate chosen before, or 60 if none was. The log has grown by 8
  lines, newest first: the 7 scripted lines above the \<open>[HxD-INIT]\<close> line written at
  invocation. This holds from every state, so also from \<open>STABLE\<close>.
\<close>

theorem hxd_boost_complete:
  assumes "truthy (importedGamePath s)"
  shows "alerted (handleHxDBoost now s) = None \<and>
         script (handleHxDBoost now s) = hxd_steps (perfProfile s) \<and>
         delays (handleHxDBoost now s) = [350, 700, 1050, 1400, 1750, 2100, 2450] \<and>
         systemHealth (complete clk (handleHxDBoost now s)) = MODIFIED \<and>
         isGameRunning (complete clk (handleHxDBoost now s)) \<and>
         perfProfile (complete clk (handleHxDBoost now s)) =
           \<lparr> targetFps = (if targetFps (perfProfile s) = 0 then 60 else targetFps (perfProfile s)),
             hexMovementBoost = True, boostEngine = Some hxd \<rparr> \<and>
         boostLog (complete clk (handleHxDBoost now s)) =
           rev (log_line now (hxd_init s) # stamped clk (scheduled (handleHxDBoost now s))) @ boostLog s \<and>
         length (boostLog (complete clk (handleHxDBoost now s))) = length (boostLog s) + 8"
proof -
  have a: "alerted (handleHxDBoost now s) = None"
    using assms by (simp add: handleHxDBoost_def Let_def)
  have sc: "script (handleHxDBoost now s) = hxd_steps (perfProfile s)"
    using assms by (simp add: script_def handleHxDBoost_def Let_def script_schedule [OF builds_HxDStep])
  have d: "delays (handleHxDBoost now s) = [350, 700, 1050, 1400, 1750, 2100, 2450]"
    using assms by (simp add: delays_def handleHxDBoost_def Let_def delays_schedule length_hxd_steps upt_rec)
  have st: "systemHealth (complete clk (handleHxDBoost now s)) = MODIFIED \<and>
            isGameRunning (complete clk (handleHxDBoost now s)) \<and>
            perfProfile (complete clk (handleHxDBoost now s)) =
              \<lparr> targetFps = (if targetFps (perfProfile s) = 0 then 60 else targetFps (perfProfile s)),
                hexMovementBoost = True, boostEngine = Some hxd \<rparr>"
    by (simp add: hxd_final_state [OF assms] Let_def or_default_def)
  have lg: "boostLog (complete clk (handleHxDBoost now s)) =
           rev (log_line now (hxd_init s) # stamped clk (scheduled (handleHxDBoost now s))) @ boostLog s"
    by (rule hxd_log [OF assms])
  have ln: "length (boostLog (complete clk (handleHxDBoost now s))) = length (boostLog s) + 8"
    by (simp add: lg hxd_stamped_length [OF assms])
  from a sc d st lg ln show ?thesis by blast
qed

lemma truthy_linked: "truthy (importedGamePath linked_state)"
  by (simp add: truthy_def linked_state_def initial_state_def)

lemma linked_state_fields:
  "targetFps (perfProfile linked_state) = 0"
  "boostLog linked_state = []"
  "systemHealth linked_state = STABLE"
  "gameName linked_state = ''game''"
  by (simp_all add: linked_state_def initial_state_def)

theorem hxd_boost_complete_witness:
  "truthy (importedGamePath linked_state) \<and> systemHealth linked_state = STABLE \<and>
   systemHealth (complete noon (handleHxDBoost (noon 0) linked_state)) = MODIFIED \<and>
   isGameRunning (complete noon (handleHxDBoost (noon 0) linked_state)) \<and>
   targetFps (perfProfile (complete noon (handleHxDBoost (noon 0) linked_state))) = 60 \<and>
   length (boostLog (complete noon (handleHxDBoost (noon 0) linked_state))) = 8"
  using hxd_boost_complete [OF truthy_linked, of "noon 0" noon] truthy_linked
  by (simp add: linked_state_fields hxd_stamped_length)

text \<open>The log of a direct boost started at noon on an empty log.\<close>

lemma hxd_log_sample:
  "boostLog (complete noon (handleHxDBoost (noon 0) linked_state)) =
   [ ''[12:00:02.450] [CORE] Target execution locked at 60 FPS.'',
     ''[12:00:02.100] [LINK] Direct memory bridge active. No AI latency overhead.'',
     ''[12:00:01.750] [THREAD] Setting REALTIME I/O priority for process handles...'',
     ''[12:00:01.400] [SYNC] Synchronizing High-Precision Event Timer (HPET) with core clock...'',
     ''[12:00:01.050] [INJECTION] Applying 0x90 (NOP) sequence to hard-coded limiter...'',
     ''[12:00:00.700] [PATCH] Identifying velocity vectors at address 0x00A4F2E...'',
     ''[12:00:00.350] [HX] Locating instruction pointer offset for frame-throttle...'',
     ''[12:00:00.000] [HxD-INIT] Accessing memory region for game...'' ]"
  by code_simp

text \<open>C1 as stated fails: the complete sequence adds 8 lines to the log, not 7.\<close>

theorem seven_lines_counterexample:
  "truthy (importedGamePath linked_state) \<and> systemHealth linked_state = STABLE \<and>
   length (boostLog (complete noon (handleHxDBoost (noon 0) linked_state))) \<noteq>
   length (boostLog linked_state) + 7"
  using truthy_linked
  by (simp add: hxd_log hxd_stamped_length linked_state_fields)


lemma modified_state_health: "systemHealth modified_state = MODIFIED"
  by (simp add: modified_state_def)

theorem restore_complete_witness:
  "systemHealth modified_state = MODIFIED \<and>
   delays (handleRestoreSystem (noon 0) modified_state) = [450, 900, 1350, 1800, 2250, 2700] \<and>
   systemHealth (complete noon (handleRestoreSystem (noon 0) modified_state)) = STABLE \<and>
   perfProfile (complete noon (handleRestoreSystem (noon 0) modified_state)) =
     \<lparr> targetFps = 0, hexMovementBoost = False, boostEngine = None \<rparr> \<and>
   \<not> isGameRunning (complete noon (handleRestoreSystem (noon 0) modified_state)) \<and>
   \<not> isOverlayActive (complete noon (handleRestoreSystem (noon 0) modified_state))"
  using restore_complete [of "noon 0" modified_state noon] modified_state_health
  by simp

section \<open>Preconditions and guards\<close>

text \<open>
  C5, as the code has it. The entry point \<open>selectBoostEngineAndStart\<close>, for either engine,
  requires a chosen frame rate and a linked target, the direct handler \<open>handleHxDBoost\<close>
  only a linked target. An invocation that misses a required precondition raises the
  alert of that precondition, registers no timer and leaves the state as it was.
\<close>

theorem boost_preconditions:
  "(\<not> truthy (importedGamePath s) \<longrightarrow>
      handleHxDBoost now s =
        \<lparr> alerted = Some link_alert, raised = None, after = s, scheduled = [] \<rparr>) \<and>
   (targetFps (perfProfile s) = 0 \<longrightarrow>
      selectBoostEngineAndStart now env JSON_parse eng s =
        \<lparr> alerted = Some fps_alert, raised = None, after = s, scheduled = [] \<rparr>) \<and>
   (targetFps (perfProfile s) \<noteq> 0 \<and> \<not> truthy (importedGamePath s) \<longrightarrow>
      selectBoostEngineAndStart now env JSON_parse eng s =
        \<lparr> alerted = Some link_alert, raised = None, after = s, scheduled = [] \<rparr>) \<and>
   (truthy (importedGamePath s) \<longrightarrow> alerted (handleHxDBoost now s) = None) \<and>
   (targetFps (perfProfile s) \<noteq> 0 \<and> truthy (importedGamePath s) \<longrightarrow>
      alerted (selectBoostEngineAndStart now env JSON_parse eng s) = None)"
  by (simp add: handleHxDBoost_def selectBoostEngineAndStart_def startBoostingSequence_def
        failing_def Let_def split: sum.splits js_value.splits)

lemma unlinked_state_fields:
  "\<not> truthy (importedGamePath unlinked_state)"
  "targetFps (perfProfile unlinked_state) \<noteq> 0"
  "systemHealth unlinked_state = STABLE"
  by (simp_all add: unlinked_state_def initial_state_def truthy_def)

theorem boost_preconditions_witness:
  "\<not> truthy (importedGamePath unlinked_state) \<and>
   handleHxDBoost (noon 0) unlinked_state =
     \<lparr> alerted = Some link_alert, raised = None, after = unlinked_state, scheduled = [] \<rparr> \<and>
   targetFps (perfProfile unlinked_state) \<noteq> 0 \<and>
   selectBoostEngineAndStart (noon 0) offline_endpoint sample_parse smart unlinked_state =
     \<lparr> alerted = Some link_alert, raised = None, after = unlinked_state, scheduled = [] \<rparr> \<and>
   targetFps (perfProfile linked_state) = 0 \<and>
   selectBoostEngineAndStart (noon 0) offline_endpoint sample_parse smart linked_state =
     \<lparr> alerted = Some fps_alert, raised = None, after = linked_state, scheduled = [] \<rparr> \<and>
   truthy (importedGamePath modified_state) \<and> targetFps (perfProfile modified_state) \<noteq> 0 \<and>
   alerted (handleHxDBoost (noon 0) modified_state) = None \<and>
   alerted (selectBoostEngineAndStart (noon 0) offline_endpoint sample_parse smart modified_state) = None"
  using boost_preconditions [of unlinked_state "noon 0" offline_endpoint sample_parse smart]
        boost_preconditions [of linked_state "noon 0" offline_endpoint sample_parse smart]
        boost_preconditions [of modified_state "noon 0" offline_endpoint sample_parse smart]
        unlinked_state_fields linked_state_fields(1) truthy_linked
  by (simp add: modified_state_def)

text \<open>
  C5 as stated fails on the direct path: with a linked target and no frame rate chosen,
  \<open>handleHxDBoost\<close> raises no alert and starts the sequence.
\<close>

theorem hxd_without_fps_counterexample:
  "targetFps (perfProfile linked_state) = 0 \<and>
   alerted (handleHxDBoost (noon 0) linked_state) = None \<and>
   systemHealth linked_state = STABLE \<and>
   systemHealth (after (handleHxDBoost (noon 0) linked_state)) = OPTIMIZING \<and>
   length (scheduled (handleHxDBoost (noon 0) linked_state)) = 7"
  using truthy_linked
  by (simp add: linked_state_fields handleHxDBoost_def Let_def addLog_def schedule_def length_hxd_steps)

lemma selectFpsTarget_effect:
  "targetFps (perfProfile (selectFpsTarget now fps s)) = fps \<and>
   boostLog (selectFpsTarget now fps s) =
     log_line now (''[TUNER] Frame-pacing target synchronized to '' @ toString_int fps @ '' Hz.'') #
     boostLog s"
  by (simp add: selectFpsTarget_def addLog_def)

text \<open>
  C9. A click on a frame-rate button while \<open>isGameRunning\<close> holds changes nothing: the
  button is disabled, so \<open>selectFpsTarget\<close> is not called. The guard is the button's and
  it is what keeps the state: on the same page with the game not running and no restore
  under way, the click stores the rate and writes its log line.
\<close>

theorem fps_click_while_running:
  "(isGameRunning s \<longrightarrow> click_fps_button now fps s = s) \<and>
   (fps_button_rendered s \<and> \<not> isGameRunning s \<and> \<not> isRestoring s \<longrightarrow>
      click_fps_button now fps s = selectFpsTarget now fps s \<and>
      targetFps (perfProfile (click_fps_button now fps s)) = fps \<and>
      boostLog (click_fps_button now fps s) =
        log_line now (''[TUNER] Frame-pacing target synchronized to '' @ toString_int fps @ '' Hz.'') #
        boostLog s)"
  using selectFpsTarget_effect [of now fps s]
  by (simp add: click_fps_button_def fps_button_disabled_def)

lemma advice_fallback_renders:
  "advice_fallback g = JArray ts \<Longrightarrow> length ts > 0 \<and> list_all tip_renders ts"
  by (auto simp: advice_fallback_def tip_renders_def)

lemma running_tuner_fields:
  "fps_button_rendered running_tuner_state"
  "isGameRunning running_tuner_state"
proof -
  obtain ts where ts: "advice_fallback ''game'' = JArray ts"
    by (simp add: advice_fallback_def)
  with advice_fallback_renders [OF ts] show "fps_button_rendered running_tuner_state"
    by (simp add: fps_button_rendered_def running_tuner_state_def)
  show "isGameRunning running_tuner_state"
    by (simp add: running_tuner_state_def modified_state_def)
qed

lemma idle_tuner_fields:
  "fps_button_rendered idle_tuner_state"
  "\<not> isGameRunning idle_tuner_state"
  "\<not> isRestoring idle_tuner_state"
  "targetFps (perfProfile idle_tuner_state) = 0"
proof -
  obtain ts where ts: "advice_fallback ''game'' = JArray ts"
    by (simp add: advice_fallback_def)
  with advice_fallback_renders [OF ts] show "fps_button_rendered idle_tuner_state"
    by (simp add: fps_button_rendered_def idle_tuner_state_def)
  show "\<not> isGameRunning idle_tuner_state" "\<not> isRestoring idle_tuner_state"
    "targetFps (perfProfile idle_tuner_state) = 0"
    by (simp_all add: idle_tuner_state_def linked_state_def initial_state_def)
qed

theorem fps_click_while_running_witness:
  "144 \<in> set FPS_TARGETS \<and>
   fps_button_rendered running_tuner_state \<and> isGameRunning running_tuner_state \<and>
   click_fps_button (noon 0) 144 running_tuner_state = running_tuner_state \<and>
   fps_button_rendered idle_tuner_state \<and> \<not> isGameRunning idle_tuner_state \<and>
   \<not> isRestoring idle_tuner_state \<and> targetFps (perfProfile idle_tuner_state) = 0 \<and>
   targetFps (perfProfile (click_fps_button (noon 0) 144 idle_tuner_state)) = 144"
  using fps_click_while_running [of running_tuner_state "noon 0" 144]
        fps_click_while_running [of idle_tuner_state "noon 0" 144]
        running_tuner_fields idle_tuner_fields
  by (simp add: FPS_TARGETS_def selectFpsTarget_effect)

text \<open>
  The guard does the work: with the \<^verbatim>\<open>disabled\<close> attribute left out, the same click on the
  running page would store the rate.
\<close>

lemma fps_click_needs_guard:
  "targetFps (perfProfile running_tuner_state) = 60 \<and>
   targetFps (perfProfile (selectFpsTarget (noon 0) 144 running_tuner_state)) = 144"
  by (simp add: selectFpsTarget_effect) (simp add: running_tuner_state_def modified_state_def)

section \<open>Properties of the external generation service\<close>

lemma only_TypeError: "err = TypeError"
  by (cases err)

lemma transient_cases:
  "transient e = Inl TypeError \<or> transient e = Inr True \<or> transient e = Inr False"
  by (cases "transient e") (auto simp: only_TypeError)

lemma callGemini_offline:
  "\<not> online (env k) \<Longrightarrow> callGemini env k retries = (Inr None, [])"
  by (simp add: callGemini.simps)

lemma callGemini_text:
  "online (env k) \<Longrightarrow> answer (env k) = Text t \<Longrightarrow>
   callGemini env k retries = (Inr (Some (text_or_empty t)), [Request k])"
  by (simp add: callGemini.simps)

lemma callGemini_retry:
  "failed_transiently (env k) \<Longrightarrow>
   callGemini env k (Suc retries) =
     (fst (callGemini env (k + 1) retries), Request k # Sleep 1000 # snd (callGemini env (k + 1) retries))"
  by (subst callGemini.simps) (auto simp: failed_transiently_def Let_def split: reply.splits)

text \<open>An attempt that is the last one allowed, or does not fail transiently, ends the call.\<close>

lemma callGemini_stop:
  assumes "retries = 0 \<or> \<not> failed_transiently (env k)"
  shows "callGemini env k retries =
           (if \<not> online (env k) then (Inr None, [])
            else (case answer (env k) of
                    Text t \<Rightarrow> Inr (Some (text_or_empty t))
                  | Thrown e \<Rightarrow> if 0 < retries \<and> transient e = Inl TypeError then Inl TypeError
                                 else Inr None,
                  [Request k]))"
proof (cases "online (env k)")
  case False
  then show ?thesis by (simp add: callGemini_offline)
next
  case on: True
  show ?thesis
  proof (cases "answer (env k)")
    case (Text t)
    with on show ?thesis by (simp add: callGemini_text)
  next
    case (Thrown e)
    show ?thesis
    proof (cases "retries = 0")
      case True
      with on Thrown show ?thesis by (subst callGemini.simps) simp
    next
      case False
      with assms on Thrown have nt: "transient e \<noteq> Inr True"
        by (simp add: failed_transiently_def)
      show ?thesis
      proof (cases "transient e")
        case (Inl err)
        with on Thrown False show ?thesis
          by (subst callGemini.simps) (cases err, simp)
      next
        case (Inr signature)
        with nt on Thrown False show ?thesis
          by (subst callGemini.simps) simp
      qed
    qed
  qed
qed

text \<open>What the call returns and sends, by the attempt it stops at.\<close>

lemma callGemini_outcome:
  assumes "j \<le> default_retries"
    and "\<forall>i < j. failed_transiently (env i)"
    and "j = default_retries \<or> \<not> failed_transiently (env j)"
  shows "callGemini env 0 default_retries =
           (if \<not> online (env j) then (Inr None, retries_before j)
            else (case answer (env j) of
                    Text t \<Rightarrow> Inr (Some (text_or_empty t))
                  | Thrown e \<Rightarrow> if j < default_retries \<and> transient e = Inl TypeError
                                 then Inl TypeError else Inr None,
                  retries_before j @ [Request j]))"
proof -
  from assms(1) consider "j = 0" | "j = 1" | "j = 2"
    unfolding default_retries_def by linarith
  then show ?thesis
  proof cases
    case 1
    with assms(3) have "default_retries = 0 \<or> \<not> failed_transiently (env 0)" by simp
    from callGemini_stop [where env = env and k = 0 and retries = default_retries, OF this] 1
    show ?thesis
      by (simp add: retries_before_def split: reply.splits)
  next
    case 2
    with assms have t: "failed_transiently (env 0)" and n: "(1::nat) = 0 \<or> \<not> failed_transiently (env 1)"
      by (simp_all add: default_retries_def)
    from callGemini_stop [where env = env and k = 1 and retries = 1, OF n]
      callGemini_retry [of env 0 1] t 2
    show ?thesis
      by (simp add: default_retries_def numeral_2_eq_2 retries_before_def split: reply.splits)
  next
    case 3
    with assms have t: "failed_transiently (env 0)" "failed_transiently (env 1)"
      by simp_all
    have "(0::nat) = 0 \<or> \<not> failed_transiently (env 2)" by simp
    from callGemini_stop [where env = env and k = 2 and retries = 0, OF this]
      callGemini_retry [of env 0 1] callGemini_retry [of env 1 0] t 3
    show ?thesis
      by (simp add: default_retries_def numeral_2_eq_2 retries_before_def upt_rec split: reply.splits)
  qed
qed

lemma requests_in_retries_before: "length (filter is_request (retries_before j)) = j"
  by (induction j) (simp_all add: retries_before_def)

lemma stopping_attempt:
  "\<exists>j \<le> default_retries. (\<forall>i < j. failed_transiently (env i)) \<and>
                          (j = default_retries \<or> \<not> failed_transiently (env j))"
proof (cases "failed_transiently (env 0)")
  case False
  then show ?thesis by (intro exI [of _ 0]) simp
next
  case t0: True
  show ?thesis
  proof (cases "failed_transiently (env 1)")
    case False
    with t0 show ?thesis
      by (intro exI [of _ 1]) (simp add: default_retries_def)
  next
    case True
    with t0 show ?thesis
      by (intro exI [of _ 2]) (auto simp: default_retries_def less_2_cases_iff)
  qed
qed

text \<open>
  The three ways a call ends are told apart by the attempts alone: it yields no text
  exactly when it fails, and it raises exactly when an attempt that may still be retried
  rejects with a value whose message cannot be tested.
\<close>

lemma call_fails_iff: "call_fails env \<longleftrightarrow> fst (callGemini env 0 default_retries) = Inr None"
proof
  assume "call_fails env"
  then obtain j where j: "j \<le> default_retries" "\<forall>i < j. failed_transiently (env i)"
      "failed_for_good (env j) \<or> (j = default_retries \<and> thrown (env j))"
    by (auto simp: call_fails_def)
  from j(3) have stop: "j = default_retries \<or> \<not> failed_transiently (env j)"
    by (auto simp: failed_for_good_def failed_transiently_def split: reply.splits)
  from j(3) show "fst (callGemini env 0 default_retries) = Inr None"
    unfolding callGemini_outcome [OF j(1,2) stop]
    by (auto simp: failed_for_good_def thrown_def split: reply.splits)
next
  assume none: "fst (callGemini env 0 default_retries) = Inr None"
  from stopping_attempt [of env] obtain j where j: "j \<le> default_retries"
      "\<forall>i < j. failed_transiently (env i)" "j = default_retries \<or> \<not> failed_transiently (env j)"
    by blast
  from none have "failed_for_good (env j) \<or> (j = default_retries \<and> thrown (env j))"
    unfolding callGemini_outcome [OF j] using j(1,3) transient_cases
    by (fastforce simp: failed_for_good_def failed_transiently_def thrown_def
             split: if_splits reply.splits)
  with j(1,2) show "call_fails env"
    unfolding call_fails_def by auto
qed

lemma call_raises_iff: "call_raises env \<longleftrightarrow> fst (callGemini env 0 default_retries) = Inl TypeError"
proof
  assume "call_raises env"
  then obtain j where j: "j < default_retries" "\<forall>i < j. failed_transiently (env i)"
      "failed_unreadably (env j)"
    by (auto simp: call_raises_def)
  from j(3) have stop: "j = default_retries \<or> \<not> failed_transiently (env j)"
    by (auto simp: failed_unreadably_def failed_transiently_def split: reply.splits)
  from j(1) have le: "j \<le> default_retries" by simp
  from j(1,3) show "fst (callGemini env 0 default_retries) = Inl TypeError"
    unfolding callGemini_outcome [OF le j(2) stop]
    by (auto simp: failed_unreadably_def split: reply.splits)
next
  assume err: "fst (callGemini env 0 default_retries) = Inl TypeError"
  from stopping_attempt [of env] obtain j where j: "j \<le> default_retries"
      "\<forall>i < j. failed_transiently (env i)" "j = default_retries \<or> \<not> failed_transiently (env j)"
    by blast
  from err have "j < default_retries \<and> failed_unreadably (env j)"
    unfolding callGemini_outcome [OF j]
    by (auto simp: failed_unreadably_def split: if_splits reply.splits)
  with j(2) show "call_raises env"
    unfolding call_raises_def by auto
qed

lemma fallback_if_failed:
  assumes "call_fails env \<or> unparsable env p"
  shows "parse_or_fallback p (fst (callGemini env 0 default_retries)) fb = Inr fb"
  using assms call_fails_iff [of env]
  by (auto simp: parse_or_fallback_def unparsable_def split: option.splits sum.splits)

lemma raise_if_raised:
  assumes "call_raises env"
  shows "parse_or_fallback p (fst (callGemini env 0 default_retries)) fb = Inl TypeError"
  using assms call_raises_iff [of env] by (simp add: parse_or_fallback_def)

lemma heuristic_verdict_explicit:
  "heuristic_verdict nm =
     JObject
       [ (''name'', JString nm),
         (''status'',
          JString (if str_includes (toLowerCase nm) ''discord'' \<or> str_includes (toLowerCase nm) ''chrome'' \<or>
                      str_includes (toLowerCase nm) ''steam'' \<or> str_includes (toLowerCase nm) ''search'' \<or>
                      str_includes (toLowerCase nm) ''indexer'' \<or> str_includes (toLowerCase nm) ''telemetry''
                   then ''safe'' else ''caution'')),
         (''recommendation'',
          JString (if str_includes (toLowerCase nm) ''discord'' \<or> str_includes (toLowerCase nm) ''chrome'' \<or>
                      str_includes (toLowerCase nm) ''steam''
                   then ''Safe to terminate. These consume significant RAM/CPU.''
                   else if str_includes (toLowerCase nm) ''search'' \<or> str_includes (toLowerCase nm) ''indexer'' \<or>
                           str_includes (toLowerCase nm) ''telemetry''
                   then ''Recommended to disable during gameplay to reduce disk I/O.''
                   else ''Manual identification required. Likely a system or driver handle.'')) ]"
  by (simp add: heuristic_verdict_def Let_def)

text \<open>
  C6, as the code has it. When the device is offline, or the external call fails (with
  a readable message of no transient signature, or at its last allowed attempt), or the
  text it returns does not parse, each service returns its fallback and raises nothing.
  The plan and advice fallbacks are five literal entries with the game name filled in.
  The process fallback is not a fixed list: it is one verdict per given name, \<open>safe\<close> with
  one of two recommendations when the lower-cased name mentions one of six words, and
  \<open>caution\<close> otherwise.
\<close>

theorem services_fall_back:
  "(call_fails env \<or> unparsable env JSON_parse \<longrightarrow>
      generateExecutionPlan env JSON_parse gameName' stats' =
        Inr (JArray
          [ JString ''LOCAL: Locking CPU Affinity for core 0-3'',
            JString (''LOCAL: Flushing standby memory lists for '' @ gameName'),
            JString ''LOCAL: Suspending non-critical I/O handles'',
            JString ''LOCAL: Reallocating virtual memory pool to high-speed cache'',
            JString ''LOCAL: Optimizing kernel interrupt request (IRQ) pacing'' ])) \<and>
   (call_fails env \<or> unparsable env JSON_parse \<longrightarrow>
      getOptimizationAdvice env JSON_parse gameName' isLowEnd =
        Inr (JArray
          [ JObject
              [ (''category'', JString ''OS''),
                (''title'', JString ''Ultimate Performance Mode''),
                (''description'', JString ''Force the OS kernel into its highest power state. Useful for laptops and systems with aggressive power saving.''),
                (''impact'', JString ''High'') ],
            JObject
              [ (''category'', JString ''Process''),
                (''title'', JString ''Realtime Priority Bridge''),
                (''description'', JString (''Bridges '' @ gameName' @ [CHR 0x27] @ ''s main thread directly to the kernel bypass for lower input latency.'')),
                (''impact'', JString ''Extreme'') ],
            JObject
              [ (''category'', JString ''Hardware''),
                (''title'', JString ''Page File Expansion''),
                (''description'', JString ''Manually expand the virtual memory buffer to prevent out-of-memory crashes on systems with limited physical RAM.''),
                (''impact'', JString ''High'') ],
            JObject
              [ (''category'', JString ''OS''),
                (''title'', JString ''Disable Superfetch''),
                (''description'', JString ''Stop the OS from pre-caching non-gaming applications during your active session to free up I/O bandwidth.''),
                (''impact'', JString ''Medium'') ],
            JObject
              [ (''category'', JString ''Compatibility''),
                (''title'', JString ''Legacy Instruction Emulation''),
                (''description'', JString ''Force old software to use modern CPU instruction sets via an software-defined affinity mask.''),
                (''impact'', JString ''Medium'') ] ])) \<and>
   (call_fails env \<or> unparsable env JSON_parse \<longrightarrow>
      analyzeProcesses env JSON_parse processNames =
        Inr (JArray (map (\<lambda>nm.
          JObject
            [ (''name'', JString nm),
              (''status'',
               JString (if str_includes (toLowerCase nm) ''discord'' \<or> str_includes (toLowerCase nm) ''chrome'' \<or>
                           str_includes (toLowerCase nm) ''steam'' \<or> str_includes (toLowerCase nm) ''search'' \<or>
                           str_includes (toLowerCase nm) ''indexer'' \<or> str_includes (toLowerCase nm) ''telemetry''
                        then ''safe'' else ''caution'')),
              (''recommendation'',
               JString (if str_includes (toLowerCase nm) ''discord'' \<or> str_includes (toLowerCase nm) ''chrome'' \<or>
                           str_includes (toLowerCase nm) ''steam''
                        then ''Safe to terminate. These consume significant RAM/CPU.''
                        else if str_includes (toLowerCase nm) ''search'' \<or> str_includes (toLowerCase nm) ''indexer'' \<or>
                                str_includes (toLowerCase nm) ''telemetry''
                        then ''Recommended to disable during gameplay to reduce disk I/O.''
                        else ''Manual identification required. Likely a system or driver handle.'')) ])
          processNames)))"
proof -
  have "process_fallback processNames = JArray (map heuristic_verdict processNames)"
    by (simp add: process_fallback_def)
  then show ?thesis
    unfolding heuristic_verdict_explicit
    by (simp add: generateExecutionPlan_def getOptimizationAdvice_def analyzeProcesses_def
          fallback_if_failed plan_fallback_def advice_fallback_def)
qed

lemma transient_500: "transient (Described (StringMessage ''got status: 500'')) = Inr True"
  by code_simp

lemma transient_xhr: "transient (Described (StringMessage ''xhr error'')) = Inr True"
  by code_simp

lemma not_transient_key: "transient (Described (StringMessage ''API key not valid'')) = Inr False"
  by code_simp

lemmas transient_samples = transient_500 transient_xhr not_transient_key

lemma offline_fails: "call_fails offline_endpoint"
  unfolding call_fails_def
  by (rule bexI [of _ 0]) (simp_all add: failed_for_good_def offline_endpoint_def)

lemma failing_fails: "call_fails failing_endpoint"
  unfolding call_fails_def
  by (rule bexI [of _ default_retries])
     (simp_all add: failed_transiently_def thrown_def failing_endpoint_def transient_samples
        del: transient.simps)

lemma refusing_fails: "call_fails refusing_endpoint"
  unfolding call_fails_def
  by (rule bexI [of _ 0])
     (simp_all add: failed_for_good_def refusing_endpoint_def transient_samples del: transient.simps)

lemma garbled_unparsable: "unparsable garbled_endpoint sample_parse"
  by (simp add: unparsable_def callGemini_text [of garbled_endpoint 0 "Some ''not json''"]
        garbled_endpoint_def text_or_empty_def sample_parse_def plan_text_def)

lemma bare_rejection_raises: "call_raises bare_rejecting_endpoint"
  unfolding call_raises_def
  by (rule bexI [of _ 0]) (simp_all add: failed_unreadably_def bare_rejecting_endpoint_def default_retries_def)

text \<open>The verdicts of the five names \<^verbatim>\<open>fetchProcesses\<close> passes.\<close>

lemma process_fallback_sample:
  "process_fallback [''Discord.exe'', ''Chrome.exe'', ''SearchIndexer.exe'', ''Steam.exe'', ''svchost.exe''] =
   JArray
     [ JObject [ (''name'', JString ''Discord.exe''), (''status'', JString ''safe''),
                 (''recommendation'', JString ''Safe to terminate. These consume significant RAM/CPU.'') ],
       JObject [ (''name'', JString ''Chrome.exe''), (''status'', JString ''safe''),
                 (''recommendation'', JString ''Safe to terminate. These consume significant RAM/CPU.'') ],
       JObject [ (''name'', JString ''SearchIndexer.exe''), (''status'', JString ''safe''),
                 (''recommendation'', JString ''Recommended to disable during gameplay to reduce disk I/O.'') ],
       JObject [ (''name'', JString ''Steam.exe''), (''status'', JString ''safe''),
                 (''recommendation'', JString ''Safe to terminate. These consume significant RAM/CPU.'') ],
       JObject [ (''name'', JString ''svchost.exe''), (''status'', JString ''caution''),
                 (''recommendation'', JString ''Manual identification required. Likely a system or driver handle.'') ] ]"
  by code_simp

theorem services_fall_back_witness:
  "call_fails offline_endpoint \<and>
   generateExecutionPlan offline_endpoint sample_parse ''game'' (stats linked_state) =
     Inr (JArray
       [ JString ''LOCAL: Locking CPU Affinity for core 0-3'',
         JString ''LOCAL: Flushing standby memory lists for game'',
         JString ''LOCAL: Suspending non-critical I/O handles'',
         JString ''LOCAL: Reallocating virtual memory pool to high-speed cache'',
         JString ''LOCAL: Optimizing kernel interrupt request (IRQ) pacing'' ]) \<and>
   call_fails failing_endpoint \<and>
   getOptimizationAdvice failing_endpoint sample_parse ''game'' True = Inr (advice_fallback ''game'') \<and>
   call_fails refusing_endpoint \<and>
   analyzeProcesses refusing_endpoint sample_parse
     [''Discord.exe'', ''Chrome.exe'', ''SearchIndexer.exe'', ''Steam.exe'', ''svchost.exe''] =
     Inr (JArray
       [ JObject [ (''name'', JString ''Discord.exe''), (''status'', JString ''safe''),
                   (''recommendation'', JString ''Safe to terminate. These consume significant RAM/CPU.'') ],
         JObject [ (''name'', JString ''Chrome.exe''), (''status'', JString ''safe''),
                   (''recommendation'', JString ''Safe to terminate. These consume significant RAM/CPU.'') ],
         JObject [ (''name'', JString ''SearchIndexer.exe''), (''status'', JString ''safe''),
                   (''recommendation'', JString ''Recommended to disable during gameplay to reduce disk I/O.'') ],
         JObject [ (''name'', JString ''Steam.exe''), (''status'', JString ''safe''),
                   (''recommendation'', JString ''Safe to terminate. These consume significant RAM/CPU.'') ],
         JObject [ (''name'', JString ''svchost.exe''), (''status'', JString ''caution''),
                   (''recommendation'', JString ''Manual identification required. Likely a system or driver handle.'') ] ]) \<and>
   unparsable garbled_endpoint sample_parse \<and>
   generateExecutionPlan garbled_endpoint sample_parse ''game'' (stats linked_state) =
     Inr (plan_fallback ''game'')"
proof -
  note all = services_fall_back [where JSON_parse = sample_parse and gameName' = "''game''"
      and stats' = "stats linked_state" and isLowEnd = True
      and processNames = "[''Discord.exe'', ''Chrome.exe'', ''SearchIndexer.exe'', ''Steam.exe'', ''svchost.exe'']"]
  have plan: "generateExecutionPlan offline_endpoint sample_parse ''game'' (stats linked_state) =
     Inr (JArray
       [ JString ''LOCAL: Locking CPU Affinity for core 0-3'',
         JString ''LOCAL: Flushing standby memory lists for game'',
         JString ''LOCAL: Suspending non-critical I/O handles'',
         JString ''LOCAL: Reallocating virtual memory pool to high-speed cache'',
         JString ''LOCAL: Optimizing kernel interrupt request (IRQ) pacing'' ])"
    using all [where env = offline_endpoint] offline_fails by simp
  have advice: "getOptimizationAdvice failing_endpoint sample_parse ''game'' True =
     Inr (advice_fallback ''game'')"
    using all [where env = failing_endpoint] failing_fails by (simp add: advice_fallback_def)
  have "analyzeProcesses refusing_endpoint sample_parse
     [''Discord.exe'', ''Chrome.exe'', ''SearchIndexer.exe'', ''Steam.exe'', ''svchost.exe''] =
     Inr (process_fallback [''Discord.exe'', ''Chrome.exe'', ''SearchIndexer.exe'', ''Steam.exe'', ''svchost.exe''])"
    using all [where env = refusing_endpoint] refusing_fails
    unfolding process_fallback_def heuristic_verdict_explicit by blast
  then have verdicts: "analyzeProcesses refusing_endpoint sample_parse
     [''Discord.exe'', ''Chrome.exe'', ''SearchIndexer.exe'', ''Steam.exe'', ''svchost.exe''] =
     Inr (JArray
       [ JObject [ (''name'', JString ''Discord.exe''), (''status'', JString ''safe''),
                   (''recommendation'', JString ''Safe to terminate. These consume significant RAM/CPU.'') ],
         JObject [ (''name'', JString ''Chrome.exe''), (''status'', JString ''safe''),
                   (''recommendation'', JString ''Safe to terminate. These consume significant RAM/CPU.'') ],
         JObject [ (''name'', JString ''SearchIndexer.exe''), (''status'', JString ''safe''),
                   (''recommendation'', JString ''Recommended to disable during gameplay to reduce disk I/O.'') ],
         JObject [ (''name'', JString ''Steam.exe''), (''status'', JString ''safe''),
                   (''recommendation'', JString ''Safe to terminate. These consume significant RAM/CPU.'') ],
         JObject [ (''name'', JString ''svchost.exe''), (''status'', JString ''caution''),
                   (''recommendation'', JString ''Manual identification required. Likely a system or driver handle.'') ] ])"
    by (simp only: process_fallback_sample)
  have garbled: "generateExecutionPlan garbled_endpoint sample_parse ''game'' (stats linked_state) =
     Inr (plan_fallback ''game'')"
    using all [where env = garbled_endpoint] garbled_unparsable by (simp add: plan_fallback_def)
  from plan advice verdicts garbled offline_fails failing_fails refusing_fails garbled_unparsable
  show ?thesis by blast
qed

text \<open>
  C6 as stated fails on both counts. A request that rejects with \<^verbatim>\<open>undefined\<close> makes the
  catch block raise, and the service passes the error on. And the process fallback is no
  fixed list: two calls that both fall back return different verdicts.
\<close>

theorem fallback_counterexample:
  "generateExecutionPlan bare_rejecting_endpoint sample_parse ''game'' (stats linked_state) =
     Inl TypeError \<and>
   call_fails offline_endpoint \<and>
   analyzeProcesses offline_endpoint sample_parse [''Discord.exe''] \<noteq>
   analyzeProcesses offline_endpoint sample_parse [''svchost.exe'']"
proof -
  have "generateExecutionPlan bare_rejecting_endpoint sample_parse ''game'' (stats linked_state) =
          Inl TypeError"
    by (simp add: generateExecutionPlan_def raise_if_raised [OF bare_rejection_raises])
  moreover have "analyzeProcesses offline_endpoint sample_parse names = Inr (process_fallback names)"
    for names
    using fallback_if_failed [of offline_endpoint sample_parse] offline_fails
    by (simp add: analyzeProcesses_def)
  moreover have "process_fallback [''Discord.exe''] \<noteq> process_fallback [''svchost.exe'']"
    by (simp add: process_fallback_def heuristic_verdict_explicit)
  ultimately show ?thesis using offline_fails by simp
qed

lemma requests_sent_simps:
  "requests_sent (r, []) = 0"
  "requests_sent (r, Request k # tr) = Suc (requests_sent (r, tr))"
  "requests_sent (r, Sleep ms # tr) = requests_sent (r, tr)"
  by (simp_all add: requests_sent_def)

text \<open>
  C7, as the code has it. A transient-looking failure is followed by a retry after a delay
  of 1000 ms, at most twice. With \<open>j\<close> the first attempt that does not fail transiently,
  or the third attempt if the first two do, the call makes its requests up to \<open>j\<close> and
  stops there: with nothing if the device is offline by then, with the text if attempt
  \<open>j\<close> answers, and if it rejects, with nothing, or with the error of the catch block
  when a retry was still allowed and the message could not be tested. In all, at most
  three requests are sent.
\<close>

theorem retry_policy:
  assumes "j \<le> default_retries"
    and "\<forall>i < j. failed_transiently (env i)"
    and "j = default_retries \<or> \<not> failed_transiently (env j)"
  shows "callGemini env 0 default_retries =
           (if \<not> online (env j) then (Inr None, retries_before j)
            else (case answer (env j) of
                    Text t \<Rightarrow> Inr (Some (text_or_empty t))
                  | Thrown e \<Rightarrow> if j < default_retries \<and> transient e = Inl TypeError
                                 then Inl TypeError else Inr None,
                  retries_before j @ [Request j])) \<and>
         requests_sent (callGemini env 0 default_retries) \<le> 3"
proof -
  note out = callGemini_outcome [OF assms]
  have "requests_sent (callGemini env 0 default_retries) \<le> Suc j"
    unfolding out by (simp add: requests_sent_def requests_in_retries_before)
  with assms(1) have "requests_sent (callGemini env 0 default_retries) \<le> 3"
    by (simp add: default_retries_def)
  with out show ?thesis by simp
qed

lemma flaky_transient: "failed_transiently (flaky_endpoint 0)" "failed_transiently (flaky_endpoint 1)"
  by (simp_all add: failed_transiently_def flaky_endpoint_def transient_samples del: transient.simps)

theorem retry_policy_witness:
  "(2::nat) \<le> default_retries \<and>
   failed_transiently (flaky_endpoint 0) \<and> failed_transiently (flaky_endpoint 1) \<and>
   callGemini flaky_endpoint 0 default_retries =
     (Inr (Some ''[]''), [Request 0, Sleep 1000, Request 1, Sleep 1000, Request 2]) \<and>
   requests_sent (callGemini flaky_endpoint 0 default_retries) \<le> 3"
proof -
  have a: "(2::nat) \<le> default_retries" by (simp add: default_retries_def)
  have b: "\<forall>i < 2. failed_transiently (flaky_endpoint i)"
    using flaky_transient by (auto simp: less_2_cases_iff)
  have c: "2 = default_retries \<or> \<not> failed_transiently (flaky_endpoint 2)"
    by (simp add: default_retries_def)
  have d: "online (flaky_endpoint 2)" "answer (flaky_endpoint 2) = Text (Some ''[]'')"
    by (simp_all add: flaky_endpoint_def)
  from retry_policy [OF a b c] a flaky_transient d show ?thesis
    by (simp add: retries_before_def text_or_empty_def upt_rec requests_sent_simps)
qed

text \<open>
  C7 as stated fails: after a second transient failure the call does not give up but sends
  a third request, whose answer becomes the result.
\<close>

theorem second_retry_counterexample:
  "failed_transiently (flaky_endpoint 0) \<and> failed_transiently (flaky_endpoint 1) \<and>
   callGemini flaky_endpoint 0 default_retries =
     (Inr (Some ''[]''), [Request 0, Sleep 1000, Request 1, Sleep 1000, Request 2]) \<and>
   requests_sent (callGemini flaky_endpoint 0 default_retries) = 3 \<and>
   generateExecutionPlan flaky_endpoint sample_parse ''game'' (stats linked_state) = Inr (JArray []) \<and>
   plan_fallback ''game'' \<noteq> JArray []"
proof -
  have "callGemini flaky_endpoint 2 0 = (Inr (Some ''[]''), [Request 2])"
    by (simp add: callGemini_text [of flaky_endpoint 2 "Some ''[]''"] flaky_endpoint_def text_or_empty_def)
  then have c: "callGemini flaky_endpoint 0 default_retries =
     (Inr (Some ''[]''), [Request 0, Sleep 1000, Request 1, Sleep 1000, Request 2])"
    using callGemini_retry [of flaky_endpoint 0 1] callGemini_retry [of flaky_endpoint 1 0] flaky_transient
    by (simp add: default_retries_def numeral_2_eq_2)
  show ?thesis
    using flaky_transient
    by (simp add: c requests_sent_simps generateExecutionPlan_def parse_or_fallback_def
          sample_parse_def plan_fallback_def)
qed

section \<open>The orchestrated sequence\<close>

text \<open>Of the timers of a sequencer, all but the last only write their line.\<close>

lemma butlast_schedule:
  "butlast (schedule p mk (xs @ [x])) =
   map (\<lambda>(i, step). ((i + 1) * p, mk step i (Suc (length xs)))) (enumerate 0 xs)"
  by (simp add: schedule_snoc)

lemma last_schedule:
  "steps \<noteq> [] \<Longrightarrow>
   last (schedule p mk steps) = (length steps * p, mk (last steps) (length steps - 1) (length steps))"
proof -
  assume "steps \<noteq> []"
  then obtain xs x where steps: "steps = xs @ [x]"
    by (metis append_butlast_last_id)
  show ?thesis unfolding steps by (simp add: schedule_snoc)
qed

lemma before_last_only_logs:
  assumes "builds_steps mk" and "steps \<noteq> []"
  shows "fire_all clk (butlast (schedule p mk steps)) s =
         s \<lparr> boostLog := rev (stamped clk (butlast (schedule p mk steps))) @ boostLog s \<rparr>"
proof -
  from assms(2) obtain xs x where steps: "steps = xs @ [x]"
    by (metis append_butlast_last_id)
  let ?front = "map (\<lambda>(i, step). ((i + 1) * p, mk step i (Suc (length xs)))) (enumerate 0 xs)"
  have nf: "\<forall>(t, cb) \<in> set ?front. \<not> is_final cb"
    using assms(1) by (auto simp: builds_steps_def in_set_enumerate_eq)
  show ?thesis
    unfolding steps butlast_schedule by (rule fire_all_not_final [OF nf])
qed

lemma run_schedule_split:
  assumes "steps \<noteq> []"
  shows "run_timers clk (schedule p mk steps) s =
         fire (clk (fst (last (schedule p mk steps)))) (snd (last (schedule p mk steps)))
           (fire_all clk (butlast (schedule p mk steps)) s)"
proof -
  from assms have "length (schedule p mk steps) \<noteq> 0" by (simp add: schedule_def)
  then have ne: "schedule p mk steps \<noteq> []" by auto
  have "fire_all clk (butlast (schedule p mk steps) @ [last (schedule p mk steps)]) s =
        fire (clk (fst (last (schedule p mk steps)))) (snd (last (schedule p mk steps)))
          (fire_all clk (butlast (schedule p mk steps)) s)"
    unfolding fire_all_append by (cases "last (schedule p mk steps)") simp
  then show ?thesis
    by (simp only: run_timers_schedule append_butlast_last_id [OF ne])
qed

lemma strings_never_raise: "\<not> list_ex raises_on_String (map JString cs)"
  by (induction cs) simp_all

lemma strings_render: "map js_String (map JString cs) = cs"
  by (induction cs) simp_all

lemma strings_render_comp: "map (js_String \<circ> JString) cs = cs"
  by (induction cs) simp_all

lemma start_with_strings:
  "startBoostingSequence g eng (JArray (map JString cs)) s =
   \<lparr> alerted = None, raised = None,
     after = s \<lparr> isOfficialBoosting := True, boostLog := [] \<rparr>,
     scheduled = schedule 400 BoostStep (baseSteps g eng cs) \<rparr>"
  using strings_never_raise [of cs]
  by (simp add: startBoostingSequence_def strings_render_comp)

text \<open>Any other plan: an array is rendered element by element, anything else raises.\<close>

lemma start_with_array:
  "\<not> list_ex raises_on_String steps \<Longrightarrow>
   startBoostingSequence g eng (JArray steps) s =
   \<lparr> alerted = None, raised = None,
     after = s \<lparr> isOfficialBoosting := True, boostLog := [] \<rparr>,
     scheduled = schedule 400 BoostStep (baseSteps g eng (map js_String steps)) \<rparr>"
  by (simp add: startBoostingSequence_def)

lemma start_without_array:
  "(\<forall>steps. plan \<noteq> JArray steps) \<or> (\<exists>steps. plan = JArray steps \<and> list_ex raises_on_String steps) \<Longrightarrow>
   startBoostingSequence g eng plan s =
   \<lparr> alerted = None, raised = Some TypeError,
     after = s \<lparr> isOfficialBoosting := True, boostLog := [] \<rparr>,
     scheduled = [] \<rparr>"
  by (cases plan) (auto simp: startBoostingSequence_def failing_def)

lemma length_baseSteps: "length (baseSteps g eng cs) = length cs + 8"
  by (simp add: baseSteps_def)

lemma last_baseSteps:
  "last (baseSteps g eng cs) = ''[HUD] Performance OSD successfully attached to render pipeline.''"
  by (simp add: baseSteps_def)

lemma baseSteps_nonempty: "baseSteps g eng cs \<noteq> []"
  by (simp add: baseSteps_def)

lemma script_start: "script (startBoostingSequence g eng (JArray (map JString cs)) s) = baseSteps g eng cs"
  by (simp add: script_def start_with_strings script_schedule [OF builds_BoostStep])

lemma delays_start:
  "delays (startBoostingSequence g eng (JArray (map JString cs)) s) =
   map (\<lambda>i. (i + 1) * 400) [0..<length cs + 8]"
  by (simp add: delays_def start_with_strings delays_schedule length_baseSteps)

lemma last_start:
  "last (scheduled (startBoostingSequence g eng (JArray (map JString cs)) s)) =
   ((length cs + 8) * 400,
    BoostStep ''[HUD] Performance OSD successfully attached to render pipeline.''
      (length cs + 7) (length cs + 8))"
  by (simp add: start_with_strings last_schedule [OF baseSteps_nonempty] length_baseSteps last_baseSteps)

lemma start_before_last:
  "fire_all clk (butlast (scheduled (startBoostingSequence g eng (JArray (map JString cs)) s)))
     (after (startBoostingSequence g eng (JArray (map JString cs)) s)) =
   (after (startBoostingSequence g eng (JArray (map JString cs)) s))
     \<lparr> boostLog := rev (stamped clk (butlast (scheduled (startBoostingSequence g eng (JArray (map JString cs)) s)))) \<rparr>"
  using before_last_only_logs [OF builds_BoostStep baseSteps_nonempty, of clk 400 g eng cs
          "s \<lparr> isOfficialBoosting := True, boostLog := [] \<rparr>"]
  by (simp add: start_with_strings)

lemma start_complete:
  "complete clk (startBoostingSequence g eng (JArray (map JString cs)) s) =
   fire (clk ((length cs + 8) * 400))
     (BoostStep ''[HUD] Performance OSD successfully attached to render pipeline.''
        (length cs + 7) (length cs + 8))
     (fire_all clk (butlast (scheduled (startBoostingSequence g eng (JArray (map JString cs)) s)))
        (after (startBoostingSequence g eng (JArray (map JString cs)) s)))"
proof -
  have "complete clk (startBoostingSequence g eng (JArray (map JString cs)) s) =
        fire (clk (fst (last (scheduled (startBoostingSequence g eng (JArray (map JString cs)) s)))))
          (snd (last (scheduled (startBoostingSequence g eng (JArray (map JString cs)) s))))
          (fire_all clk (butlast (scheduled (startBoostingSequence g eng (JArray (map JString cs)) s)))
             (after (startBoostingSequence g eng (JArray (map JString cs)) s)))"
    using run_schedule_split [OF baseSteps_nonempty, of clk 400 BoostStep g eng cs
            "s \<lparr> isOfficialBoosting := True, boostLog := [] \<rparr>"]
    by (simp add: complete_def start_with_strings)
  then show ?thesis by (simp only: last_start fst_conv snd_conv)
qed

lemma start_flags:
  "systemHealth (complete clk (startBoostingSequence g eng (JArray (map JString cs)) s)) = MODIFIED \<and>
   isGameRunning (complete clk (startBoostingSequence g eng (JArray (map JString cs)) s)) \<and>
   isOverlayActive (complete clk (startBoostingSequence g eng (JArray (map JString cs)) s)) \<and>
   \<not> isOfficialBoosting (complete clk (startBoostingSequence g eng (JArray (map JString cs)) s))"
  by (simp add: start_complete Let_def)

lemma select_smart:
  assumes "targetFps (perfProfile s) \<noteq> 0" and "truthy (importedGamePath s)"
    and "generateExecutionPlan env p (gameName s) (stats s) = Inr plan"
  shows "selectBoostEngineAndStart now env p smart s =
         startBoostingSequence (gameName s) smart plan (announced now s)"
  using assms by (simp add: selectBoostEngineAndStart_def announced_def Let_def)

lemma select_smart_raises:
  assumes "targetFps (perfProfile s) \<noteq> 0" and "truthy (importedGamePath s)"
    and "generateExecutionPlan env p (gameName s) (stats s) = Inl err"
  shows "selectBoostEngineAndStart now env p smart s = failing err (announced now s)"
  using assms by (simp add: selectBoostEngineAndStart_def announced_def Let_def)

text \<open>
  C8, as the code has it. Given a list of generated step strings, the orchestrated
  sequence tags each with \<open>[NEURAL] Strategy:\<close> and places the tagged steps after the
  first three constant lines and before the last five. Line \<open>i\<close> of the combined script
  is registered at \<open>(i + 1) * 400\<close> ms. The steps before the last only write their
  lines; the last, the \<open>[HUD]\<close> line, also makes health \<open>MODIFIED\<close>, marks the game
  running and activates the overlay. Started through \<open>selectBoostEngineAndStart\<close> with a
  frame rate chosen, a target linked and a plan call that returns such a list, the
  sequence is the same.
\<close>

theorem smart_boost_sequence:
  "raised (startBoostingSequence g eng (JArray (map JString cs)) s) = None \<and>
   script (startBoostingSequence g eng (JArray (map JString cs)) s) =
     [ ''[SIGNAL] Launching '' @ engine_toUpperCase eng @ '' BOOST sequence for '' @ g @ ''...'',
       ''[MEM] Mapping process virtual memory pages for isolation...'',
       ''[CPU] Identifying thread topology and hyper-threading constraints...'' ] @
     map (\<lambda>step. ''[NEURAL] Strategy: '' @ step) cs @
     [ ''[IRQ] Elevating kernel interrupt request priority for mouse/keyboard...'',
       ''[CACHE] Flushing instruction cache to prioritize '' @ g @ '' data...'',
       ''[AFFINITY] Locking process to core cluster 0-3...'',
       ''[ZENITH] ENGINE IS ACTIVE. SYSTEM OPTIMIZED.'',
       ''[HUD] Performance OSD successfully attached to render pipeline.'' ] \<and>
   delays (startBoostingSequence g eng (JArray (map JString cs)) s) =
     map (\<lambda>i. (i + 1) * 400) [0..<length cs + 8] \<and>
   fire_all clk (butlast (scheduled (startBoostingSequence g eng (JArray (map JString cs)) s)))
       (after (startBoostingSequence g eng (JArray (map JString cs)) s)) =
     (after (startBoostingSequence g eng (JArray (map JString cs)) s))
       \<lparr> boostLog := rev (stamped clk (butlast (scheduled (startBoostingSequence g eng (JArray (map JString cs)) s)))) \<rparr> \<and>
   complete clk (startBoostingSequence g eng (JArray (map JString cs)) s) =
     fire (clk ((length cs + 8) * 400))
       (BoostStep ''[HUD] Performance OSD successfully attached to render pipeline.''
          (length cs + 7) (length cs + 8))
       (fire_all clk (butlast (scheduled (startBoostingSequence g eng (JArray (map JString cs)) s)))
          (after (startBoostingSequence g eng (JArray (map JString cs)) s))) \<and>
   systemHealth (complete clk (startBoostingSequence g eng (JArray (map JString cs)) s)) = MODIFIED \<and>
   isGameRunning (complete clk (startBoostingSequence g eng (JArray (map JString cs)) s)) \<and>
   isOverlayActive (complete clk (startBoostingSequence g eng (JArray (map JString cs)) s)) \<and>
   (targetFps (perfProfile s) \<noteq> 0 \<and> truthy (importedGamePath s) \<and>
    generateExecutionPlan env JSON_parse (gameName s) (stats s) = Inr (JArray (map JString cs)) \<longrightarrow>
      selectBoostEngineAndStart now env JSON_parse smart s =
        startBoostingSequence (gameName s) smart (JArray (map JString cs)) (announced now s) \<and>
      systemHealth (after (selectBoostEngineAndStart now env JSON_parse smart s)) = OPTIMIZING \<and>
      systemHealth (complete clk (selectBoostEngineAndStart now env JSON_parse smart s)) = MODIFIED \<and>
      isGameRunning (complete clk (selectBoostEngineAndStart now env JSON_parse smart s)) \<and>
      isOverlayActive (complete clk (selectBoostEngineAndStart now env JSON_parse smart s)))"
proof -
  have r: "raised (startBoostingSequence g eng (JArray (map JString cs)) s) = None"
    by (simp add: start_with_strings)
  have sc: "script (startBoostingSequence g eng (JArray (map JString cs)) s) =
     [ ''[SIGNAL] Launching '' @ engine_toUpperCase eng @ '' BOOST sequence for '' @ g @ ''...'',
       ''[MEM] Mapping process virtual memory pages for isolation...'',
       ''[CPU] Identifying thread topology and hyper-threading constraints...'' ] @
     map (\<lambda>step. ''[NEURAL] Strategy: '' @ step) cs @
     [ ''[IRQ] Elevating kernel interrupt request priority for mouse/keyboard...'',
       ''[CACHE] Flushing instruction cache to prioritize '' @ g @ '' data...'',
       ''[AFFINITY] Locking process to core cluster 0-3...'',
       ''[ZENITH] ENGINE IS ACTIVE. SYSTEM OPTIMIZED.'',
       ''[HUD] Performance OSD successfully attached to render pipeline.'' ]"
    unfolding script_start by (simp add: baseSteps_def neural_def)
  have sel: "selectBoostEngineAndStart now env JSON_parse smart s =
        startBoostingSequence (gameName s) smart (JArray (map JString cs)) (announced now s) \<and>
      systemHealth (after (selectBoostEngineAndStart now env JSON_parse smart s)) = OPTIMIZING \<and>
      systemHealth (complete clk (selectBoostEngineAndStart now env JSON_parse smart s)) = MODIFIED \<and>
      isGameRunning (complete clk (selectBoostEngineAndStart now env JSON_parse smart s)) \<and>
      isOverlayActive (complete clk (selectBoostEngineAndStart now env JSON_parse smart s))"
    if "targetFps (perfProfile s) \<noteq> 0" "truthy (importedGamePath s)"
      "generateExecutionPlan env JSON_parse (gameName s) (stats s) = Inr (JArray (map JString cs))"
  proof -
    note eq = select_smart [OF that, of now]
    have "systemHealth (after (startBoostingSequence (gameName s) smart (JArray (map JString cs))
            (announced now s))) = OPTIMIZING"
      by (simp add: start_with_strings announced_def addLog_def)
    with eq start_flags [of clk "gameName s" smart cs "announced now s"] show ?thesis
      by simp
  qed
  from r sc delays_start [of g eng cs s] start_before_last [of clk g eng cs s]
    start_complete [of clk g eng cs s] start_flags [of clk g eng cs s] sel
  show ?thesis by blast
qed

lemma ready_state_fields:
  "targetFps (perfProfile ready_state) \<noteq> 0"
  "truthy (importedGamePath ready_state)"
  "gameName ready_state = ''game''"
  "boostLog ready_state = [''[12:00:00.000] [TUNER] Frame-pacing target synchronized to 60 Hz.'']"
  "systemHealth ready_state = STABLE"
  by (simp_all add: ready_state_def linked_state_def initial_state_def truthy_def)

lemma planning_plan:
  "generateExecutionPlan planning_endpoint sample_parse g st = Inr (JArray (map JString sample_plan))"
  by (simp add: generateExecutionPlan_def parse_or_fallback_def
        callGemini_text [of planning_endpoint 0 "Some plan_text"] planning_endpoint_def
        text_or_empty_def sample_parse_def plan_text_def)

theorem smart_boost_sequence_witness:
  "targetFps (perfProfile ready_state) \<noteq> 0 \<and> truthy (importedGamePath ready_state) \<and>
   generateExecutionPlan planning_endpoint sample_parse (gameName ready_state) (stats ready_state) =
     Inr (JArray (map JString sample_plan)) \<and>
   delays (startBoostingSequence ''game'' smart (JArray (map JString sample_plan)) ready_state) =
     [400, 800, 1200, 1600, 2000, 2400, 2800, 3200, 3600] \<and>
   script (startBoostingSequence ''game'' smart (JArray (map JString sample_plan)) ready_state) ! 3 =
     ''[NEURAL] Strategy: ISOLATING THREAD 4'' \<and>
   systemHealth (after (selectBoostEngineAndStart (noon 0) planning_endpoint sample_parse smart ready_state)) =
     OPTIMIZING \<and>
   systemHealth (complete noon (selectBoostEngineAndStart (noon 0) planning_endpoint sample_parse smart ready_state)) =
     MODIFIED"
proof -
  note all = smart_boost_sequence [of "''game''" smart sample_plan ready_state noon planning_endpoint
      sample_parse "noon 0"]
  note plan = planning_plan [of "gameName ready_state" "stats ready_state"]
  have sc: "script (startBoostingSequence ''game'' smart (JArray (map JString sample_plan)) ready_state) ! 3 =
              ''[NEURAL] Strategy: ISOLATING THREAD 4''"
    unfolding all [THEN conjunct2, THEN conjunct1] by (simp add: sample_plan_def)
  have d: "delays (startBoostingSequence ''game'' smart (JArray (map JString sample_plan)) ready_state) =
             [400, 800, 1200, 1600, 2000, 2400, 2800, 3200, 3600]"
    unfolding all [THEN conjunct2, THEN conjunct2, THEN conjunct1]
    by (simp add: sample_plan_def upt_rec)
  note sel = all [THEN conjunct2, THEN conjunct2, THEN conjunct2, THEN conjunct2, THEN conjunct2,
      THEN conjunct2, THEN conjunct2, THEN conjunct2, THEN mp,
      OF conjI [OF ready_state_fields(1) conjI [OF ready_state_fields(2) plan]]]
  from sc d sel ready_state_fields(1,2) plan show ?thesis by blast
qed

text \<open>
  C8 as stated fails: the generated steps do not open the script. Its first line is the
  constant \<open>[SIGNAL]\<close> line, and the generated step comes fourth, tagged.
\<close>

theorem generated_prefix_counterexample:
  "\<not> prefix sample_plan
       (script (startBoostingSequence ''game'' smart (JArray (map JString sample_plan)) ready_state)) \<and>
   \<not> prefix (map neural sample_plan)
       (script (startBoostingSequence ''game'' smart (JArray (map JString sample_plan)) ready_state)) \<and>
   hd (script (startBoostingSequence ''game'' smart (JArray (map JString sample_plan)) ready_state)) =
     ''[SIGNAL] Launching SMART BOOST sequence for game...''"
  unfolding script_start
  by (simp add: baseSteps_def sample_plan_def neural_def engine_toUpperCase_def)

text \<open>
  A plan call that returns something else than an array: the reply \<^verbatim>\<open>null\<close> parses, the log
  is emptied, \<^verbatim>\<open>customSteps.map\<close> raises, no timer is registered and health stays
  \<open>OPTIMIZING\<close>.
\<close>

lemma null_plan:
  "generateExecutionPlan null_endpoint sample_parse g st = Inr JNull"
  by (simp add: generateExecutionPlan_def parse_or_fallback_def
        callGemini_text [of null_endpoint 0 "Some ''null''"] null_endpoint_def
        text_or_empty_def sample_parse_def)

lemma smart_null_reply:
  "raised (selectBoostEngineAndStart (noon 0) null_endpoint sample_parse smart ready_state) = Some TypeError \<and>
   scheduled (selectBoostEngineAndStart (noon 0) null_endpoint sample_parse smart ready_state) = [] \<and>
   boostLog (after (selectBoostEngineAndStart (noon 0) null_endpoint sample_parse smart ready_state)) = [] \<and>
   systemHealth (complete noon (selectBoostEngineAndStart (noon 0) null_endpoint sample_parse smart ready_state)) =
     OPTIMIZING"
  unfolding select_smart [OF ready_state_fields(1,2) null_plan]
  by (simp add: startBoostingSequence_def failing_def complete_def run_timers_def
        announced_def addLog_def)

section \<open>The log\<close>

lemma boostLog_addLog: "boostLog (addLog now msg s) = log_line now msg # boostLog s"
  by (simp add: addLog_def)

lemma after_start_log: "boostLog (after (startBoostingSequence g eng plan s)) = []"
  by (cases plan) (simp_all add: startBoostingSequence_def failing_def Let_def)

lemma perform_keeps_log:
  assumes "\<not> starts_smart_sequence op s"
  shows "suffix (boostLog s) (boostLog (perform now op s))"
proof (cases op)
  case (Tick i)
  then show ?thesis by (simp add: tick_def)
next
  case (HandleOptimization now' env p)
  then show ?thesis
    by (simp add: handleOptimization_def Let_def quiet_def failing_def boostLog_addLog suffix_Cons
          split: sum.splits)
next
  case (HandleImportGame picked)
  then show ?thesis
    by (cases picked) (simp_all add: handleImportGame_def boostLog_addLog suffix_Cons)
next
  case (SelectFpsTarget fps)
  then show ?thesis by (simp add: selectFpsTarget_def boostLog_addLog suffix_Cons)
next
  case HandleHxDBoost
  then show ?thesis by (simp add: handleHxDBoost_def Let_def boostLog_addLog suffix_Cons)
next
  case sel: (SelectBoostEngineAndStart eng env p)
  show ?thesis
  proof (cases "targetFps (perfProfile s) = 0 \<or> \<not> truthy (importedGamePath s) \<or> eng = hxd")
    case True
    with sel show ?thesis
      by (auto simp: selectBoostEngineAndStart_def handleHxDBoost_def Let_def boostLog_addLog suffix_Cons)
  next
    case False
    then have pre: "targetFps (perfProfile s) \<noteq> 0" "truthy (importedGamePath s)" and eng: "eng = smart"
      by (simp_all, cases eng, simp_all)
    from assms sel pre eng obtain err where
      "generateExecutionPlan env p (gameName s) (stats s) = Inl err"
      by (cases "generateExecutionPlan env p (gameName s) (stats s)") simp_all
    from select_smart_raises [OF pre this, of now] sel eng show ?thesis
      by (simp add: failing_def announced_def boostLog_addLog suffix_Cons)
  qed
next
  case HandleRestoreSystem
  then show ?thesis by (simp add: handleRestoreSystem_def boostLog_addLog suffix_Cons)
next
  case (FetchProcesses env p rnd)
  then show ?thesis
    by (simp add: fetchProcesses_def Let_def quiet_def failing_def boostLog_addLog suffix_Cons
          split: sum.splits js_value.splits)
next
  case (TimerFires cb)
  then show ?thesis by (simp add: boostLog_fire suffix_Cons)
qed simp_all

lemma start_clears_log:
  "boostLog (after (startBoostingSequence g eng plan s)) = [] \<and>
   boostLog (complete clk (startBoostingSequence g eng plan s)) =
     rev (stamped clk (scheduled (startBoostingSequence g eng plan s)))"
proof -
  have "scheduled (startBoostingSequence g eng plan s) = [] \<or>
        (\<exists>steps. scheduled (startBoostingSequence g eng plan s) = schedule 400 BoostStep steps)"
    by (cases plan) (auto simp: startBoostingSequence_def failing_def Let_def)
  then show ?thesis
  proof
    assume "scheduled (startBoostingSequence g eng plan s) = []"
    then show ?thesis
      by (simp add: after_start_log complete_def run_timers_def stamped_def)
  next
    assume "\<exists>steps. scheduled (startBoostingSequence g eng plan s) = schedule 400 BoostStep steps"
    then obtain steps where
      "scheduled (startBoostingSequence g eng plan s) = schedule 400 BoostStep steps" by blast
    then show ?thesis
      by (simp add: after_start_log complete_def boostLog_run_schedule)
  qed
qed

lemma select_smart_clears_log:
  assumes "starts_smart_sequence (SelectBoostEngineAndStart smart env p) s"
  shows "boostLog (after (selectBoostEngineAndStart now env p smart s)) = []"
proof -
  from assms obtain plan where pre: "targetFps (perfProfile s) \<noteq> 0" "truthy (importedGamePath s)"
      "generateExecutionPlan env p (gameName s) (stats s) = Inr plan"
    by (cases "generateExecutionPlan env p (gameName s) (stats s)") simp_all
  show ?thesis
    unfolding select_smart [OF pre] by (rule after_start_log)
qed

lemma hxd_after_log:
  "truthy (importedGamePath s) \<Longrightarrow>
   boostLog (after (handleHxDBoost now s)) = log_line now (hxd_init s) # boostLog s"
  by (simp add: handleHxDBoost_def Let_def boostLog_addLog)

text \<open>
  C10. \<open>startBoostingSequence\<close> empties the log before any of its lines is written, so
  when it has completed the log holds its own lines and no earlier one; the same holds
  when it is reached through \<open>selectBoostEngineAndStart\<close>. The direct path puts its lines
  in front of the log it found. Every operation that does not reach
  \<open>startBoostingSequence\<close> leaves the log it found as a suffix of the new log.
\<close>

theorem log_cleared_only_by_smart_start:
  "boostLog (after (startBoostingSequence g eng plan s)) = [] \<and>
   boostLog (complete clk (startBoostingSequence g eng plan s)) =
     rev (stamped clk (scheduled (startBoostingSequence g eng plan s))) \<and>
   (starts_smart_sequence (SelectBoostEngineAndStart smart env JSON_parse) s \<longrightarrow>
      boostLog (after (selectBoostEngineAndStart now env JSON_parse smart s)) = []) \<and>
   (truthy (importedGamePath s) \<longrightarrow>
      boostLog (after (handleHxDBoost now s)) = log_line now (hxd_init s) # boostLog s \<and>
      boostLog (complete clk (handleHxDBoost now s)) =
        rev (log_line now (hxd_init s) # stamped clk (scheduled (handleHxDBoost now s))) @ boostLog s) \<and>
   (\<not> starts_smart_sequence op s \<longrightarrow> suffix (boostLog s) (boostLog (perform now op s)))"
  using start_clears_log [of g eng plan s clk] select_smart_clears_log [of env JSON_parse s now]
        hxd_after_log [of s now] hxd_log [of s clk now] perform_keeps_log [of op s now]
  by blast

lemma ready_starts_smart:
  "starts_smart_sequence (SelectBoostEngineAndStart smart planning_endpoint sample_parse) ready_state"
  using ready_state_fields(1,2) by (simp add: planning_plan)

theorem log_cleared_only_by_smart_start_witness:
  "boostLog ready_state \<noteq> [] \<and>
   starts_smart_sequence (SelectBoostEngineAndStart smart planning_endpoint sample_parse) ready_state \<and>
   boostLog (after (selectBoostEngineAndStart (noon 0) planning_endpoint sample_parse smart ready_state)) = [] \<and>
   truthy (importedGamePath ready_state) \<and>
   boostLog (after (handleHxDBoost (noon 0) ready_state)) =
     log_line (noon 0) (hxd_init ready_state) # boostLog ready_state \<and>
   \<not> starts_smart_sequence HandleRestoreSystem ready_state \<and>
   suffix (boostLog ready_state) (boostLog (perform (noon 0) HandleRestoreSystem ready_state))"
  using log_cleared_only_by_smart_start [of "''game''" smart "JArray (map JString sample_plan)" ready_state
          noon planning_endpoint sample_parse "noon 0" HandleRestoreSystem]
        ready_state_fields ready_starts_smart
  by simp

text \<open>
  A smart start whose plan call raises does not reach \<open>startBoostingSequence\<close>: the log
  keeps its lines under the announcement.
\<close>

lemma smart_raise_keeps_log:
  "raised (selectBoostEngineAndStart (noon 0) bare_rejecting_endpoint sample_parse smart ready_state) =
     Some TypeError \<and>
   suffix (boostLog ready_state)
     (boostLog (after (selectBoostEngineAndStart (noon 0) bare_rejecting_endpoint sample_parse smart ready_state)))"
proof -
  have "generateExecutionPlan bare_rejecting_endpoint sample_parse (gameName ready_state) (stats ready_state) =
          Inl TypeError"
    by (simp add: generateExecutionPlan_def raise_if_raised [OF bare_rejection_raises])
  from select_smart_raises [OF ready_state_fields(1,2) this, of "noon 0"] show ?thesis
    by (simp add: failing_def announced_def boostLog_addLog suffix_Cons)
qed

end
